(* ===== verification/Prelude.thy ===== *)
theory Prelude
  imports Main
begin

text \<open>
  Shared vocabulary of the djaio model. Python values that cross the wire are
  JSON values (\<open>json\<close>); Python truthiness (\<open>not x\<close>, \<open>x or y\<close>) is
  \<open>py_truthy\<close>; aiohttp's multi-dictionaries (query string, form body, headers)
  are association lists read front to back, with \<open>md_pop\<close> removing the first
  occurrence of a key as \<open>MultiDict.pop\<close> does. The collection \<open>djaio_simps\<close>
  gathers the evaluation lemmas the component theories share.
\<close>

named_theorems djaio_simps "evaluation lemmas shared by the djaio component theories"

section \<open>JSON values\<close>

text \<open>
  Everything the views serialise with \<open>web.json_response\<close>: \<open>None\<close>, booleans,
  integers, strings, lists and dicts. A dict is an association list in insertion
  order, which is the order Python serialises it in.
\<close>

datatype json =
    JNull
  | JBool bool
  | JInt int
  | JStr string
  | JList "json list"
  | JObj "(string \<times> json) list"

text \<open>Python truthiness of a JSON value: \<open>None\<close>, \<open>False\<close>, \<open>0\<close> and empty containers are false.\<close>

fun py_truthy :: "json \<Rightarrow> bool" where
  "py_truthy JNull = False"
| "py_truthy (JBool b) = b"
| "py_truthy (JInt n) = (n \<noteq> 0)"
| "py_truthy (JStr s) = (s \<noteq> [])"
| "py_truthy (JList xs) = (xs \<noteq> [])"
| "py_truthy (JObj kvs) = (kvs \<noteq> [])"

text \<open>\<open>d.get(k, default)\<close> on a dict-shaped JSON value.\<close>

definition obj_get :: "(string \<times> json) list \<Rightarrow> string \<Rightarrow> json \<Rightarrow> json" where
  "obj_get kvs k dflt = (case map_of kvs k of None \<Rightarrow> dflt | Some v \<Rightarrow> v)"

section \<open>Multi-dictionaries\<close>

type_synonym multidict = "(string \<times> string) list"

text \<open>
  \<open>md.pop(k, None)\<close>: the value of the first entry with key \<open>k\<close>, and the
  dictionary without that entry.
\<close>

fun md_pop :: "string \<Rightarrow> multidict \<Rightarrow> string option \<times> multidict" where
  "md_pop k [] = (None, [])"
| "md_pop k ((k', v) # kvs) =
     (if k' = k then (Some v, kvs)
      else (let (r, kvs') = md_pop k kvs in (r, (k', v) # kvs')))"

text \<open>A multi-dictionary handed to a schematics model reads as a JSON object of strings.\<close>

definition json_of_md :: "multidict \<Rightarrow> json" where
  "json_of_md md = JObj (map (\<lambda>(k, v). (k, JStr v)) md)"

section \<open>Shared lemmas\<close>

lemma md_pop_value [djaio_simps]: "fst (md_pop k md) = map_of md k"
  by (induction md rule: md_pop.induct) (auto simp: split_def Let_def)

lemma md_pop_absent [djaio_simps]: "map_of md k = None \<Longrightarrow> snd (md_pop k md) = md"
  by (induction md rule: md_pop.induct) (auto simp: split_def Let_def split: if_splits)

lemma md_pop_removes_one:
  "map_of md k = Some v \<Longrightarrow> length md = Suc (length (snd (md_pop k md)))"
  by (induction md rule: md_pop.induct) (auto simp: split_def Let_def split: if_splits)

lemma md_pop_keeps_others [djaio_simps]:
  "k' \<noteq> k \<Longrightarrow> map_of (snd (md_pop k md)) k' = map_of md k'"
  by (induction md rule: md_pop.induct) (auto simp: split_def Let_def)

lemma obj_get_hit [simp]: "map_of kvs k = Some v \<Longrightarrow> obj_get kvs k d = v"
  by (simp add: obj_get_def)

lemma obj_get_miss [simp]: "map_of kvs k = None \<Longrightarrow> obj_get kvs k d = d"
  by (simp add: obj_get_def)

lemma py_truthy_JObj_Cons [simp]: "py_truthy (JObj (kv # kvs))"
  by simp

end
