(* ===== verification/Exceptions.thy ===== *)
theory Exceptions
  imports Prelude
begin

text \<open>
  The error taxonomy. \<open>djaio/core/exceptions.py\<close> is not part of the sources, so
  \<open>BaseApiException\<close>, its \<open>to_dict\<close> and \<open>BadRequestException\<close> follow the spec
  (section 7: a typed fault carries a status code and a payload, \<open>to_dict\<close> gives
  \<open>{code, message}\<close>, \<open>BadRequest\<close> is status 400). Every other Python exception
  the views can see is \<open>PyExc\<close>, recording exactly what \<open>_process_request\<close> reads
  from it: \<open>getattr(exc, 'status_code', 500)\<close>, \<open>getattr(exc, 'message', None)\<close>
  and \<open>str(exc)\<close>. The log events are the calls on \<open>djaio_logger\<close>.
\<close>

datatype exc =
    ApiExc int json  \<comment> \<open>a \<open>BaseApiException\<close>: \<open>status_code\<close>, \<open>message\<close>\<close>
  | PyExc "int option" "json option" string
      \<comment> \<open>any other exception: its \<open>status_code\<close> and \<open>message\<close> attributes if present, \<open>str(exc)\<close>\<close>

text \<open>\<open>BaseApiException.to_dict()\<close>.\<close>

definition api_to_dict :: "int \<Rightarrow> json \<Rightarrow> json" where
  "api_to_dict code msg = JObj [(''code'', JInt code), (''message'', msg)]"

text \<open>\<open>BadRequestException(message=...)\<close>: status 400.\<close>

definition bad_request_exc :: "json \<Rightarrow> exc" where
  "bad_request_exc msg = ApiExc 400 msg"

text \<open>The aiohttp and builtin exceptions the code raises or runs into.\<close>

definition http_bad_request :: exc where
  "http_bad_request = PyExc (Some 400) None ''Bad Request''"

text \<open>\<open>HTTPMethodNotAllowed(method, allowed_methods)\<close> as \<open>web.View\<close> raises it
  for a verb the view class has no handler for: status 405.\<close>

definition http_method_not_allowed :: exc where
  "http_method_not_allowed = PyExc (Some 405) None ''Method Not Allowed''"

text \<open>
  \<open>raise web.HTTPMethodNotAllowed\<close> (views.py, lines 83 and 155) names the class
  without calling it, so Python calls it with no arguments; its constructor requires
  \<open>method\<close> and \<open>allowed_methods\<close>, and the exception actually raised is the
  resulting \<open>TypeError\<close>, which has no \<open>status_code\<close>: the server answers 500.
\<close>

definition bare_method_not_allowed :: exc where
  "bare_method_not_allowed =
     PyExc None None ''TypeError: HTTPMethodNotAllowed() missing required arguments method, allowed_methods''"

definition not_implemented_error :: exc where
  "not_implemented_error = PyExc None None ''Please override execute() method.''"

definition attribute_error :: "string \<Rightarrow> exc" where
  "attribute_error name = PyExc None None (''object has no attribute '' @ name)"

definition key_error :: "string \<Rightarrow> exc" where
  "key_error k = PyExc None None k"

definition type_error :: exc where
  "type_error = PyExc None None ''TypeError''"

text \<open>The record appended for an unclassified fault (views.py, lines 105-108).\<close>

definition server_error_record :: "int \<Rightarrow> json" where
  "server_error_record status = JObj [(''code'', JInt status), (''message'', JStr ''Server error'')]"

text \<open>Calls on \<open>djaio_logger\<close>: \<open>warning(msg=...)\<close>, \<open>exception(exc, ...)\<close>, \<open>error(msg=...)\<close>.\<close>

datatype log_event = LogWarning json | LogException string | LogError json

lemma exc_distinct_api [simp]:
  "http_bad_request \<noteq> ApiExc c m" "http_method_not_allowed \<noteq> ApiExc c m"
  "not_implemented_error \<noteq> ApiExc c m" "attribute_error n \<noteq> ApiExc c m"
  "type_error \<noteq> ApiExc c m" "bare_method_not_allowed \<noteq> ApiExc c m"
  by (simp_all add: http_bad_request_def http_method_not_allowed_def bare_method_not_allowed_def
      not_implemented_error_def attribute_error_def type_error_def)

end
