(* ===== verification/Validation.thy ===== *)
theory Validation
  imports Exceptions
begin

text \<open>
  The validation model. The schematics models (\<open>NullInput\<close> and the
  application's input models) are library code; what the core relies on is the
  outcome of \<open>input_model(raw).to_primitive()\<close>: a primitive mapping, a
  \<open>DataError\<close> whose \<open>messages\<close> map field names to errors, or a
  \<open>TypeError\<close>/\<open>ValueError\<close>. An error under a field is a \<open>ConversionError\<close>
  (with its list of message summaries), another field error such as a
  \<open>ValidationError\<close>, or a dict of nested errors. \<open>collect_errors\<close> is the
  normalisation loop of \<open>BaseMethod.from_http\<close> (methods.py, lines 61-74) that
  turns the messages into the list of \<open>{field: [summaries]}\<close> records carried by
  the \<open>BadRequestException\<close>.
\<close>

datatype err_leaf =
    LConv "string list"  \<comment> \<open>a \<open>ConversionError\<close> and the summaries of its messages\<close>
  | LOther string        \<comment> \<open>any other field error, e.g. a \<open>ValidationError\<close>\<close>

datatype err_entry =
    EDict "(string \<times> err_leaf) list"  \<comment> \<open>\<open>isinstance(v, dict)\<close>: nested errors\<close>
  | ELeaf err_leaf

datatype schema_result =
    SOk json                            \<comment> \<open>\<open>to_primitive()\<close> of the converted model\<close>
  | SDataErr "(string \<times> err_entry) list"  \<comment> \<open>\<open>DataError\<close> / \<open>ModelConversionError\<close> with its \<open>messages\<close>\<close>
  | STypeErr                            \<comment> \<open>\<open>TypeError\<close> or \<open>ValueError\<close> raised by the model\<close>

fun conv_summaries :: "err_leaf \<Rightarrow> string list option" where
  "conv_summaries (LConv s) = Some s"
| "conv_summaries (LOther _) = None"

text \<open>One iteration of the loop over \<open>exc.messages.items()\<close>: the records appended for field \<open>k\<close>.\<close>

fun entry_errors :: "string \<Rightarrow> err_entry \<Rightarrow> (string \<times> string list) list" where
  "entry_errors k (EDict inner) =
     List.map_filter (\<lambda>(_, e). map_option (Pair k) (conv_summaries e)) inner"
| "entry_errors k (ELeaf e) =
     (case conv_summaries e of Some s \<Rightarrow> [(k, s)] | None \<Rightarrow> [])"

fun collect_errors :: "(string \<times> err_entry) list \<Rightarrow> (string \<times> string list) list" where
  "collect_errors [] = []"
| "collect_errors ((k, v) # ms) = entry_errors k v @ collect_errors ms"

text \<open>The payload \<open>errors\<close> given to \<open>BadRequestException(message=errors)\<close>.\<close>

definition field_error_json :: "string \<times> string list \<Rightarrow> json" where
  "field_error_json e = JObj [(fst e, JList (map JStr (snd e)))]"

definition bad_request_message :: "(string \<times> string list) list \<Rightarrow> json" where
  "bad_request_message errs = JList (map field_error_json errs)"

section \<open>Lemmas\<close>

lemma collect_errors_append [simp]:
  "collect_errors (ms @ ns) = collect_errors ms @ collect_errors ns"
  by (induction ms rule: collect_errors.induct) auto

lemma entry_errors_keys: "(k', s) \<in> set (entry_errors k v) \<Longrightarrow> k' = k"
  by (cases v) (auto simp: List.map_filter_def split: option.splits)

lemma collect_errors_keys:
  "(k, s) \<in> set (collect_errors ms) \<Longrightarrow> k \<in> fst ` set ms"
  by (induction ms rule: collect_errors.induct) (auto dest: entry_errors_keys intro: rev_image_eqI)

lemma entry_errors_leaf_conv [simp]: "entry_errors k (ELeaf (LConv s)) = [(k, s)]"
  by simp

lemma entry_errors_leaf_other [simp]: "entry_errors k (ELeaf (LOther t)) = []"
  by simp

lemma conv_summaries_Some [simp]:
  "conv_summaries e = Some s \<longleftrightarrow> e = LConv s" "Some s = conv_summaries e \<longleftrightarrow> e = LConv s"
  by (cases e; auto)+

lemma map_filter_conv_mem:
  "(k', s) \<in> set (List.map_filter (\<lambda>(_, e). map_option (Pair k) (conv_summaries e)) inner) \<longleftrightarrow>
   k' = k \<and> (\<exists>n. (n, LConv s) \<in> set inner)"
  by (induction inner) (auto split: option.splits)

lemma entry_errors_mem:
  "(k', s) \<in> set (entry_errors k v) \<longleftrightarrow>
   k' = k \<and> (v = ELeaf (LConv s) \<or> (\<exists>inner n. v = EDict inner \<and> (n, LConv s) \<in> set inner))"
  by (cases v) (auto simp: map_filter_conv_mem split: option.splits)

text \<open>
  C3. The normalised validation errors report every conversion failure: a record
  \<open>{k: summaries}\<close> is produced exactly for each field \<open>k\<close> whose error is a
  \<open>ConversionError\<close> with those summaries, directly or nested under it. Other
  field errors (a \<open>ValidationError\<close> such as a missing required field) produce
  no record.
\<close>

theorem collect_errors_complete:
  "(k, s) \<in> set (collect_errors ms) \<longleftrightarrow>
   (k, ELeaf (LConv s)) \<in> set ms \<or> (\<exists>inner n. (k, EDict inner) \<in> set ms \<and> (n, LConv s) \<in> set inner)"
  by (induction ms rule: collect_errors.induct) (auto simp: entry_errors_mem)

end
