(* ===== verification/Utils.thy ===== *)
theory Utils
  imports Prelude
begin

text \<open>
  \<open>djaio/core/utils.py\<close> is not part of the sources. The core calls two of its
  functions: \<open>get_int_or_none\<close>, modelled here from the spec ("non-numeric supplied
  values are treated as absent ... never raise"), and \<open>gather_map\<close>, modelled
  with the remote aggregation. A numeric value is an optional sign followed by
  decimal digits; Python's \<open>int()\<close> also strips surrounding whitespace and accepts
  digit-group underscores, which this reading leaves out.
\<close>

definition digit_value :: "char \<Rightarrow> nat option" where
  "digit_value c = (let n = (of_char c :: nat) in if 48 \<le> n \<and> n \<le> 57 then Some (n - 48) else None)"

fun digits_value :: "nat \<Rightarrow> string \<Rightarrow> nat option" where
  "digits_value acc [] = Some acc"
| "digits_value acc (c # cs) =
     (case digit_value c of None \<Rightarrow> None | Some d \<Rightarrow> digits_value (10 * acc + d) cs)"

definition parse_decimal :: "string \<Rightarrow> nat option" where
  "parse_decimal s = (if s = [] then None else digits_value 0 s)"

definition get_int_or_none :: "string option \<Rightarrow> int option" where
  "get_int_or_none v =
     (case v of
        None \<Rightarrow> None
      | Some [] \<Rightarrow> None
      | Some (c # ds) \<Rightarrow>
          if c = CHR ''-'' then map_option (\<lambda>n. - int n) (parse_decimal ds)
          else if c = CHR ''+'' then map_option int (parse_decimal ds)
          else map_option int (parse_decimal (c # ds)))"

text \<open>Decimal printing of a natural number, the inverse used by the round-trip lemmas.\<close>

fun show_decimal :: "nat \<Rightarrow> string" where
  "show_decimal n =
     (if n < 10 then [char_of (48 + n)]
      else show_decimal (n div 10) @ [char_of (48 + n mod 10)])"

definition show_int :: "int \<Rightarrow> string" where
  "show_int i = (if i < 0 then CHR ''-'' # show_decimal (nat (- i)) else show_decimal (nat i))"

section \<open>Lemmas\<close>

lemma digits_value_append:
  "digits_value acc (xs @ ys) = (case digits_value acc xs of None \<Rightarrow> None | Some a \<Rightarrow> digits_value a ys)"
  by (induction xs arbitrary: acc) (auto split: option.splits)

lemma digit_value_char: "d < 10 \<Longrightarrow> digit_value (char_of (48 + d)) = Some d"
  by (simp add: digit_value_def)

declare show_decimal.simps [simp del]

lemma show_decimal_digits:
  "c \<in> set (show_decimal n) \<Longrightarrow> 48 \<le> (of_char c :: nat) \<and> (of_char c :: nat) \<le> 57"
proof (induction n rule: show_decimal.induct)
  case (1 n)
  show ?case
  proof (cases "n < 10")
    case True
    with "1.prems" show ?thesis by (simp add: show_decimal.simps [of n])
  next
    case False
    have "n mod 10 < 10" by simp
    with False "1.prems" "1.IH" show ?thesis by (auto simp: show_decimal.simps [of n])
  qed
qed

lemma show_decimal_nonempty: "show_decimal n \<noteq> []"
  by (subst show_decimal.simps) simp

lemma digits_value_show_decimal:
  "digits_value acc (show_decimal n) = Some (acc * 10 ^ length (show_decimal n) + n)"
proof (induction n arbitrary: acc rule: show_decimal.induct)
  case (1 n)
  show ?case
  proof (cases "n < 10")
    case True
    then show ?thesis by (simp add: show_decimal.simps [of n] digit_value_char)
  next
    case False
    let ?L = "length (show_decimal (n div 10))"
    have "digits_value acc (show_decimal n) =
            digits_value (acc * 10 ^ ?L + n div 10) [char_of (48 + n mod 10)]"
      using False "1.IH" by (simp add: show_decimal.simps [of n] digits_value_append)
    also have "\<dots> = Some (10 * (acc * 10 ^ ?L + n div 10) + n mod 10)"
      by (simp add: digit_value_char)
    also have "10 * (acc * 10 ^ ?L + n div 10) + n mod 10 = acc * 10 ^ Suc ?L + n"
      by (simp add: algebra_simps)
    finally show ?thesis
      using False by (simp add: show_decimal.simps [of n])
  qed
qed

lemma parse_decimal_show: "parse_decimal (show_decimal n) = Some n"
  by (simp add: parse_decimal_def show_decimal_nonempty digits_value_show_decimal)

lemma get_int_or_none_show_int: "get_int_or_none (Some (show_int i)) = Some i"
proof (cases "i < 0")
  case True
  then show ?thesis by (simp add: show_int_def get_int_or_none_def parse_decimal_show)
next
  case False
  obtain c cs where sd: "show_decimal (nat i) = c # cs"
    using show_decimal_nonempty by (metis list.exhaust)
  then have "48 \<le> (of_char c :: nat)" using show_decimal_digits [of c "nat i"] by simp
  then have "c \<noteq> CHR ''-''" and "c \<noteq> CHR ''+''" by auto
  with False sd show ?thesis
    using parse_decimal_show [of "nat i"] by (simp add: show_int_def get_int_or_none_def)
qed
end
