(* ===== verification/Method.thy ===== *)
theory Method
  imports Validation Utils
begin

text \<open>
  \<open>BaseMethod\<close> (djaio/core/methods.py). The per-invocation attributes of a
  method instance are the record \<open>mstate\<close>; the overridable parts of the class
  (input and output models, \<open>process_request\<close>, \<open>execute\<close> and the hook methods
  the views call) are the record \<open>method_impl\<close>, so that a concrete method is a
  value of it and \<open>base_method\<close> is the class as written. Every \<open>async def\<close> is a
  function from the instance's state to its new state and either the exception
  it raises (\<open>Inl\<close>) or its result (\<open>Inr\<close>).
\<close>

section \<open>Requests and application settings\<close>

datatype verb = GET | POST | PUT | DELETE | OtherVerb string

record settings =
  LIMIT :: int
  OFFSET :: int

text \<open>
  The slice of \<open>aiohttp.web.Request\<close> the core reads. \<open>req_json\<close> is the value of
  \<open>await request.json()\<close>, \<open>None\<close> when it raises \<open>ValueError\<close>/\<open>TypeError\<close>;
  \<open>req_post\<close> is \<open>await request.post()\<close>. The application contributes its settings,
  the map \<open>app.urls\<close> from view-class names to route names, and the router: a route
  name resolves to a URL builder, which fails (\<open>None\<close>) on missing parts. Header
  names are taken in canonical spelling; the case-insensitive matching of
  \<open>CIMultiDict\<close> is not modelled.
\<close>

record request =
  is_web_request :: bool
  req_method :: verb
  req_headers :: multidict
  req_GET :: multidict
  req_json :: "json option"
  req_post :: multidict
  app_settings :: settings
  app_urls :: "(string \<times> string) list"
  app_router :: "string \<Rightarrow> (json \<Rightarrow> string option) option"

section \<open>Method state\<close>

text \<open>
  \<open>self.limit\<close>/\<open>self.offset\<close> hold the raw header string, the parsed query integer
  or the configured default, whichever the \<open>or\<close>-chain picks.
\<close>

datatype pval = PStr string | PInt int

record pagination =
  pg_total :: int
  pg_limit :: "pval option"
  pg_offset :: "pval option"

text \<open>
  The output dict. \<open>self.output['errors'] = self.errors\<close> stores the method's own
  list object, and \<open>response['errors'] = method.errors or []\<close> in the views stores
  either that object or a fresh list: \<open>errslot\<close> records which, so that later
  appends to \<open>method.errors\<close> show in the rendered response exactly when Python
  would show them.
\<close>

datatype errslot = NoErrs | ErrsOwn "json list" | ErrsAlias

record envelope =
  env_result :: "json list option"
  env_success :: bool
  env_errors :: errslot
  env_pagination :: "pagination option"

text \<open>The attributes \<open>BaseMethod.__init__\<close> creates (the never-read \<open>success\<close> is left out).\<close>

record 'obj mstate =
  m_result :: "'obj list option"
  m_total :: "int option"
  m_errors :: "json list"
  m_params :: "json option"
  m_output :: "envelope option"
  m_pagination :: "pagination option"
  m_limit :: "pval option"
  m_offset :: "pval option"
  m_settings :: "settings option"

text \<open>
  The overridable methods. \<open>call_pre_hooks\<close>/\<open>call_post_hooks\<close> are called by both
  views but not defined by \<open>BaseMethod\<close>: \<open>None\<close> is a class without them, where
  the call raises \<open>AttributeError\<close>. A post hook sees the output dict but is
  modelled as changing only the method's state.
\<close>

record 'obj method_impl =
  input_model :: "json \<Rightarrow> schema_result"
  output_model :: "'obj \<Rightarrow> exc + json"
  process_request :: "multidict \<Rightarrow> multidict"
  execute :: "'obj mstate \<Rightarrow> 'obj mstate \<times> (exc + 'obj list)"
  call_pre_hooks :: "('obj mstate \<Rightarrow> 'obj mstate \<times> exc option) option"
  call_post_hooks :: "('obj mstate \<Rightarrow> envelope \<Rightarrow> 'obj mstate \<times> exc option) option"

definition init_mstate :: "'obj mstate" where
  "init_mstate =
     \<lparr>m_result = None, m_total = None, m_errors = [], m_params = None, m_output = None,
      m_pagination = None, m_limit = None, m_offset = None, m_settings = None\<rparr>"

definition base_execute :: "'obj mstate \<Rightarrow> 'obj mstate \<times> (exc + 'obj list)" where
  "base_execute st = (st, Inl not_implemented_error)"

definition base_method :: "(json \<Rightarrow> schema_result) \<Rightarrow> ('obj \<Rightarrow> exc + json) \<Rightarrow> 'obj method_impl" where
  "base_method inm outm =
     \<lparr>input_model = inm, output_model = outm, process_request = id,
      execute = base_execute, call_pre_hooks = None, call_post_hooks = None\<rparr>"

section \<open>from\_http\<close>

text \<open>
  One link of \<open>request.headers.get(H) or get_int_or_none(get_params.pop(K, None))
  or default\<close>. The pop is evaluated only when the header is missing or empty.
\<close>

definition cursor_from_query :: "string \<Rightarrow> int \<Rightarrow> multidict \<Rightarrow> pval \<times> multidict" where
  "cursor_from_query key dflt params =
     (let (v, params') = md_pop key params
      in (case get_int_or_none v of
            Some n \<Rightarrow> if n \<noteq> 0 then PInt n else PInt dflt
          | None \<Rightarrow> PInt dflt, params'))"

definition resolve_cursor ::
  "string \<Rightarrow> string \<Rightarrow> int \<Rightarrow> multidict \<Rightarrow> multidict \<Rightarrow> pval \<times> multidict" where
  "resolve_cursor hdr key dflt headers params =
     (case map_of headers hdr of
        Some h \<Rightarrow> if h \<noteq> [] then (PStr h, params) else cursor_from_query key dflt params
      | None \<Rightarrow> cursor_from_query key dflt params)"

text \<open>
  The body of a write request: the JSON body, and the form body when reading the
  JSON or converting it raises \<open>ValueError\<close>/\<open>TypeError\<close> (methods.py, 56-60).
\<close>

definition validate_body :: "'obj method_impl \<Rightarrow> request \<Rightarrow> schema_result" where
  "validate_body impl req =
     (case req_json req of
        None \<Rightarrow> input_model impl (json_of_md (req_post req))
      | Some j \<Rightarrow>
          (case input_model impl j of
             STypeErr \<Rightarrow> input_model impl (json_of_md (req_post req))
           | r \<Rightarrow> r))"

text \<open>Which validation \<open>from_http\<close> runs for the verb; \<open>None\<close>: no branch applies.\<close>

definition validate_input :: "'obj method_impl \<Rightarrow> request \<Rightarrow> multidict \<Rightarrow> schema_result option" where
  "validate_input impl req params =
     (case req_method req of
        GET \<Rightarrow> Some (input_model impl (json_of_md params))
      | DELETE \<Rightarrow> Some (input_model impl (json_of_md params))
      | PUT \<Rightarrow> Some (validate_body impl req)
      | POST \<Rightarrow> Some (validate_body impl req)
      | OtherVerb _ \<Rightarrow> None)"

text \<open>Lines 46-51: both cursors, and the query parameters left for validation.\<close>

definition resolve_cursors :: "'obj method_impl \<Rightarrow> request \<Rightarrow> pval \<times> pval \<times> multidict" where
  "resolve_cursors impl req =
     (let q0 = process_request impl (req_GET req);
          (lim, q1) = resolve_cursor ''X-Limit'' ''limit'' (LIMIT (app_settings req)) (req_headers req) q0;
          (off, q2) = resolve_cursor ''X-Offset'' ''offset'' (OFFSET (app_settings req)) (req_headers req) q1
      in (lim, off, q2))"

definition from_http :: "'obj method_impl \<Rightarrow> request \<Rightarrow> 'obj mstate \<Rightarrow> 'obj mstate \<times> (exc + unit)" where
  "from_http impl req st0 =
     (let st1 = st0\<lparr>m_errors := [], m_result := Some []\<rparr>
      in if \<not> is_web_request req then (st1, Inl http_bad_request)
      else
        (case resolve_cursors impl req of
           (lim, off, q) \<Rightarrow>
             (let st2 = st1\<lparr>m_limit := Some lim, m_offset := Some off\<rparr>
              in (case validate_input impl req q of
                    None \<Rightarrow> (st2\<lparr>m_settings := Some (app_settings req)\<rparr>, Inr ())
                  | Some (SOk p) \<Rightarrow> (st2\<lparr>m_params := Some p, m_settings := Some (app_settings req)\<rparr>, Inr ())
                  | Some (SDataErr ms) \<Rightarrow> (st2, Inl (bad_request_exc (bad_request_message (collect_errors ms))))
                  | Some STypeErr \<Rightarrow> (st2, Inl type_error)))))"

section \<open>Pagination and output\<close>

definition get_pagination :: "'obj mstate \<Rightarrow> 'obj mstate \<times> pagination option" where
  "get_pagination st =
     (case m_total st of
        None \<Rightarrow> (st, None)
      | Some n \<Rightarrow>
          if n = 0 then (st, None)
          else (let pg = \<lparr>pg_total = n, pg_limit = m_limit st, pg_offset = m_offset st\<rparr>
                in (st\<lparr>m_pagination := Some pg\<rparr>, Some pg)))"

text \<open>The list comprehension over \<open>self.result\<close>: the first raise aborts it.\<close>

fun map_exc :: "('a \<Rightarrow> exc + 'b) \<Rightarrow> 'a list \<Rightarrow> exc + 'b list" where
  "map_exc f [] = Inr []"
| "map_exc f (x # xs) =
     (case f x of
        Inl e \<Rightarrow> Inl e
      | Inr y \<Rightarrow> (case map_exc f xs of Inl e \<Rightarrow> Inl e | Inr ys \<Rightarrow> Inr (y # ys)))"

definition get_output :: "'obj method_impl \<Rightarrow> 'obj mstate \<Rightarrow> 'obj mstate \<times> (exc + envelope)" where
  "get_output impl st0 =
     (case execute impl st0 of
        (st1, Inl e) \<Rightarrow> (st1, Inl e)
      | (st1, Inr objs) \<Rightarrow>
          (let st2 = st1\<lparr>m_result := Some objs\<rparr>
           in (case map_exc (output_model impl) objs of
                 Inl e \<Rightarrow> (st2, Inl e)
               | Inr prims \<Rightarrow>
                   (let out = \<lparr>env_result = Some prims, env_success = (m_errors st2 = []),
                               env_errors = (if m_errors st2 \<noteq> [] then ErrsAlias else NoErrs),
                               env_pagination = None\<rparr>;
                        (st3, pg) = get_pagination st2;
                        out' = out\<lparr>env_pagination := pg\<rparr>
                    in (st3\<lparr>m_output := Some out'\<rparr>, Inr out')))))"

section \<open>Hook calls\<close>

definition run_pre_hooks :: "'obj method_impl \<Rightarrow> 'obj mstate \<Rightarrow> 'obj mstate \<times> exc option" where
  "run_pre_hooks impl st =
     (case call_pre_hooks impl of
        None \<Rightarrow> (st, Some (attribute_error ''call_pre_hooks''))
      | Some h \<Rightarrow> h st)"

definition run_post_hooks ::
  "'obj method_impl \<Rightarrow> 'obj mstate \<Rightarrow> envelope \<Rightarrow> 'obj mstate \<times> exc option" where
  "run_post_hooks impl st out =
     (case call_post_hooks impl of
        None \<Rightarrow> (st, Some (attribute_error ''call_post_hooks''))
      | Some h \<Rightarrow> h st out)"

section \<open>Behaviour of the operations\<close>

subsection \<open>Cursor resolution\<close>

lemma resolve_cursor_header:
  "map_of hs hdr = Some h \<Longrightarrow> h \<noteq> [] \<Longrightarrow> resolve_cursor hdr key dflt hs ps = (PStr h, ps)"
  by (simp add: resolve_cursor_def)

lemma resolve_cursor_no_header:
  "map_of hs hdr = None \<or> map_of hs hdr = Some [] \<Longrightarrow>
   resolve_cursor hdr key dflt hs ps = cursor_from_query key dflt ps"
  by (auto simp: resolve_cursor_def)

lemma cursor_from_query_value:
  "fst (cursor_from_query key dflt ps) =
     (case get_int_or_none (map_of ps key) of
        Some n \<Rightarrow> if n \<noteq> 0 then PInt n else PInt dflt
      | None \<Rightarrow> PInt dflt)"
  using md_pop_value [of key ps]
  by (simp add: cursor_from_query_def split_def)

lemma cursor_from_query_keeps_others:
  "key' \<noteq> key \<Longrightarrow> map_of (snd (cursor_from_query key dflt ps)) key' = map_of ps key'"
  by (simp add: cursor_from_query_def split_def Let_def md_pop_keeps_others)

lemma resolve_cursor_keeps_others:
  "key' \<noteq> key \<Longrightarrow> map_of (snd (resolve_cursor hdr key dflt hs ps)) key' = map_of ps key'"
  by (simp add: resolve_cursor_def cursor_from_query_keeps_others split: option.splits)

text \<open>The value a cursor takes, read off the request (header first, then query, then default).\<close>

definition cursor_value :: "string \<Rightarrow> string \<Rightarrow> int \<Rightarrow> multidict \<Rightarrow> multidict \<Rightarrow> pval" where
  "cursor_value hdr key dflt hs ps =
     (case map_of hs hdr of
        Some h \<Rightarrow> if h \<noteq> [] then PStr h else fst (cursor_from_query key dflt ps)
      | None \<Rightarrow> fst (cursor_from_query key dflt ps))"

lemma resolve_cursor_value: "fst (resolve_cursor hdr key dflt hs ps) = cursor_value hdr key dflt hs ps"
  by (simp add: resolve_cursor_def cursor_value_def split: option.splits)

subsection \<open>from\_http\<close>

lemma from_http_not_request:
  "\<not> is_web_request req \<Longrightarrow>
   from_http impl req st = (st\<lparr>m_errors := [], m_result := Some []\<rparr>, Inl http_bad_request)"
  by (simp add: from_http_def)

lemma from_http_request:
  assumes "is_web_request req" and "resolve_cursors impl req = (lim, off, q)"
  shows "from_http impl req st =
     (let st2 = st\<lparr>m_errors := [], m_result := Some [], m_limit := Some lim, m_offset := Some off\<rparr>
      in (case validate_input impl req q of
            None \<Rightarrow> (st2\<lparr>m_settings := Some (app_settings req)\<rparr>, Inr ())
          | Some (SOk p) \<Rightarrow> (st2\<lparr>m_params := Some p, m_settings := Some (app_settings req)\<rparr>, Inr ())
          | Some (SDataErr ms) \<Rightarrow> (st2, Inl (bad_request_exc (bad_request_message (collect_errors ms))))
          | Some STypeErr \<Rightarrow> (st2, Inl type_error)))"
  using assms by (simp add: from_http_def Let_def)

lemma from_http_ok:
  assumes "is_web_request req" and "resolve_cursors impl req = (lim, off, q)"
    and "validate_input impl req q = Some (SOk p)"
  shows "from_http impl req st =
     (st\<lparr>m_errors := [], m_result := Some [], m_limit := Some lim, m_offset := Some off,
         m_params := Some p, m_settings := Some (app_settings req)\<rparr>, Inr ())"
  using assms by (simp add: from_http_request)

lemma from_http_data_err:
  assumes "is_web_request req" and "resolve_cursors impl req = (lim, off, q)"
    and "validate_input impl req q = Some (SDataErr ms)"
  shows "from_http impl req st =
     (st\<lparr>m_errors := [], m_result := Some [], m_limit := Some lim, m_offset := Some off\<rparr>,
      Inl (bad_request_exc (bad_request_message (collect_errors ms))))"
  using assms by (simp add: from_http_request)

lemma from_http_errors [simp]: "m_errors (fst (from_http impl req st)) = []"
  by (auto simp: from_http_def Let_def split: prod.splits option.splits schema_result.splits)

lemma from_http_frame:
  "m_total (fst (from_http impl req st)) = m_total st \<and>
   m_pagination (fst (from_http impl req st)) = m_pagination st \<and>
   m_output (fst (from_http impl req st)) = m_output st"
  by (auto simp: from_http_def Let_def split: prod.splits option.splits schema_result.splits)

lemma resolve_cursors_offset:
  "fst (snd (resolve_cursors impl req)) =
     cursor_value ''X-Offset'' ''offset'' (OFFSET (app_settings req)) (req_headers req)
       (process_request impl (req_GET req))"
proof -
  let ?q0 = "process_request impl (req_GET req)"
  let ?q1 = "snd (resolve_cursor ''X-Limit'' ''limit'' (LIMIT (app_settings req)) (req_headers req) ?q0)"
  have q: "map_of ?q1 ''offset'' = map_of ?q0 ''offset''"
    by (rule resolve_cursor_keeps_others) simp
  have "cursor_value ''X-Offset'' ''offset'' d hs ?q1 = cursor_value ''X-Offset'' ''offset'' d hs ?q0"
    for d hs unfolding cursor_value_def cursor_from_query_value q ..
  then show ?thesis
    by (simp add: resolve_cursors_def split_def Let_def resolve_cursor_value)
qed

lemma resolve_cursors_limit:
  "fst (resolve_cursors impl req) =
     cursor_value ''X-Limit'' ''limit'' (LIMIT (app_settings req)) (req_headers req)
       (process_request impl (req_GET req))"
  by (simp add: resolve_cursors_def split_def Let_def resolve_cursor_value)

subsection \<open>Output\<close>

lemma map_exc_map: "(\<And>x. x \<in> set xs \<Longrightarrow> f x = Inr (g x)) \<Longrightarrow> map_exc f xs = Inr (map g xs)"
  by (induction xs) auto

lemma map_exc_length: "map_exc f xs = Inr ys \<Longrightarrow> length ys = length xs"
  by (induction xs arbitrary: ys) (auto split: sum.splits)

lemma get_pagination_state:
  "fst (get_pagination st) = (case snd (get_pagination st) of None \<Rightarrow> st | Some pg \<Rightarrow> st\<lparr>m_pagination := Some pg\<rparr>)"
  by (simp add: get_pagination_def Let_def split: option.splits)

lemma get_pagination_errors [simp]: "m_errors (fst (get_pagination st)) = m_errors st"
  by (simp add: get_pagination_def Let_def split: option.splits)

lemma get_pagination_Some:
  "snd (get_pagination st) = Some pg \<longleftrightarrow>
   (\<exists>n. m_total st = Some n \<and> n \<noteq> 0 \<and> pg = \<lparr>pg_total = n, pg_limit = m_limit st, pg_offset = m_offset st\<rparr>)"
  by (auto simp: get_pagination_def Let_def split: option.splits)

lemma get_output_ok:
  assumes "execute impl st = (st1, Inr objs)" and "map_exc (output_model impl) objs = Inr prims"
  shows "get_output impl st =
     (let st2 = st1\<lparr>m_result := Some objs\<rparr>;
          out = \<lparr>env_result = Some prims, env_success = (m_errors st1 = []),
                 env_errors = (if m_errors st1 \<noteq> [] then ErrsAlias else NoErrs),
                 env_pagination = snd (get_pagination st2)\<rparr>
      in (fst (get_pagination st2)\<lparr>m_output := Some out\<rparr>, Inr out))"
  using assms by (simp add: get_output_def split_def Let_def)

lemma get_output_exec_err:
  "execute impl st = (st1, Inl e) \<Longrightarrow> get_output impl st = (st1, Inl e)"
  by (simp add: get_output_def)

lemma get_output_errors:
  "execute impl st = (st1, r) \<Longrightarrow> m_errors (fst (get_output impl st)) = m_errors st1"
  by (auto simp: get_output_def Let_def split_def split: sum.splits)


subsection \<open>Properties of the method\<close>

lemma from_http_cursor_state:
  assumes "is_web_request req"
  shows "m_limit (fst (from_http impl req st)) = Some (fst (resolve_cursors impl req)) \<and>
         m_offset (fst (from_http impl req st)) = Some (fst (snd (resolve_cursors impl req)))"
proof -
  obtain lim off q where rc: "resolve_cursors impl req = (lim, off, q)" by (metis prod_cases3)
  show ?thesis
    using from_http_request [OF assms rc, of st] rc
    by (simp add: Let_def split: option.splits schema_result.splits)
qed

text \<open>
  C7. Cursor resolution: for a web request, \<open>from_http\<close> sets \<open>limit\<close> and
  \<open>offset\<close> from the non-empty header if there is one, else from the query
  parameter if it reads as a non-zero integer, else from the application's
  default; the limit's pop never disturbs the offset's query parameter.
\<close>

theorem from_http_cursors:
  assumes "is_web_request req"
  shows "m_limit (fst (from_http impl req st)) =
           Some (cursor_value ''X-Limit'' ''limit'' (LIMIT (app_settings req)) (req_headers req)
                   (process_request impl (req_GET req))) \<and>
         m_offset (fst (from_http impl req st)) =
           Some (cursor_value ''X-Offset'' ''offset'' (OFFSET (app_settings req)) (req_headers req)
                   (process_request impl (req_GET req)))"
  using from_http_cursor_state [OF assms] by (simp add: resolve_cursors_limit resolve_cursors_offset)

text \<open>
  C8. When both cursor headers are present and non-empty, the query parameters are
  not popped: \<open>limit\<close> and \<open>offset\<close> stay among the parameters handed to the
  input model, unlike a request that passes them in the query only.
\<close>

theorem resolve_cursors_headers_keep_query:
  assumes "map_of (req_headers req) ''X-Limit'' = Some h1" and "h1 \<noteq> []"
    and "map_of (req_headers req) ''X-Offset'' = Some h2" and "h2 \<noteq> []"
  shows "resolve_cursors impl req = (PStr h1, PStr h2, process_request impl (req_GET req))"
  using assms by (simp add: resolve_cursors_def resolve_cursor_header Let_def)

text \<open>
  C9. A query value \<open>offset=0\<close> (with no header) is ignored: \<open>or\<close> treats the
  integer 0 as absent and the configured default \<open>OFFSET\<close> is used instead.
\<close>

theorem from_http_zero_offset:
  assumes "is_web_request req" and "map_of (req_headers req) ''X-Offset'' = None"
    and "map_of (process_request impl (req_GET req)) ''offset'' = Some ''0''"
  shows "m_offset (fst (from_http impl req st)) = Some (PInt (OFFSET (app_settings req)))"
proof -
  have "m_offset (fst (from_http impl req st)) = Some (fst (snd (resolve_cursors impl req)))"
    using from_http_cursor_state [OF assms(1)] by blast
  also have "fst (snd (resolve_cursors impl req)) = PInt (OFFSET (app_settings req))"
    using assms(2,3)
    by (simp add: resolve_cursors_offset cursor_value_def cursor_from_query_value
        get_int_or_none_def parse_decimal_def digit_value_def)
  finally show ?thesis .
qed

text \<open>
  C10. A POST or PUT whose body is not valid JSON (or whose JSON the model rejects
  with \<open>TypeError\<close>/\<open>ValueError\<close>) is validated from its form body: when the
  form validates, \<open>from_http\<close> succeeds with the form's parameters.
\<close>

theorem from_http_form_fallback:
  assumes "is_web_request req" and "req_method req = POST \<or> req_method req = PUT"
    and "req_json req = None \<or> (\<exists>j. req_json req = Some j \<and> input_model impl j = STypeErr)"
    and "input_model impl (json_of_md (req_post req)) = SOk p"
  shows "snd (from_http impl req st) = Inr () \<and> m_params (fst (from_http impl req st)) = Some p"
proof -
  obtain lim off q where rc: "resolve_cursors impl req = (lim, off, q)" by (metis prod_cases3)
  have "validate_body impl req = SOk p"
    using assms(3,4) by (auto simp: validate_body_def)
  then have "validate_input impl req q = Some (SOk p)"
    using assms(2) by (auto simp: validate_input_def)
  then show ?thesis
    using from_http_ok [OF assms(1) rc] by simp
qed

text \<open>
  C11. The output carries a pagination block exactly when the method's total is a
  non-zero integer after \<open>execute\<close>; the block holds that total and the cursors
  stored by \<open>from_http\<close>.
\<close>

theorem get_output_pagination:
  assumes "get_output impl st = (st', Inr out)"
  shows "env_pagination out =
           (case m_total st' of
              Some n \<Rightarrow> if n \<noteq> 0 then Some \<lparr>pg_total = n, pg_limit = m_limit st', pg_offset = m_offset st'\<rparr>
                        else None
            | None \<Rightarrow> None)"
  using assms
  by (auto simp: get_output_def get_pagination_def Let_def split: prod.splits sum.splits option.splits if_splits)


text \<open>
  C21. Round trip of a query cursor: when the query string carries the decimal
  spelling of an integer under the cursor's key (and no header overrides it),
  \<open>get_int_or_none(get_params.pop(key, None)) or default\<close> reads that integer
  back exactly, except 0, which falls through to the settings default, and the
  key's entry is removed from the parameters passed on to the input model.
\<close>

theorem cursor_from_query_show_int:
  "cursor_from_query key dflt ((key, show_int i) # ps) = (PInt (if i \<noteq> 0 then i else dflt), ps)"
  by (simp add: cursor_from_query_def get_int_or_none_show_int)

end
