(* ===== verification/JsonView.thy ===== *)
theory JsonView
  imports Method
begin

text \<open>
  \<open>JsonView\<close> (djaio/core/views.py, lines 60-138). A view binds each verb to a
  method instance; the state passed to a handler is the state of the instance
  bound to the request's verb, and the handler returns that instance's new state.
  Both flavours of view produce an \<open>outcome\<close>: the instance's state, the log, the
  HTTP response or the exception that escapes the handler (aiohttp turns it into
  its own error page), and \<open>self._response.get('result')\<close>, which the
  \<open>Location\<close> side effect of \<open>post\<close>/\<open>put\<close> reads.
\<close>

record 'obj json_view =
  get_method :: "'obj method_impl option"
  post_method :: "'obj method_impl option"
  put_method :: "'obj method_impl option"
  delete_method :: "'obj method_impl option"
  location_url_name :: "string option"
  view_name :: string  \<comment> \<open>\<open>self.__class__.__name__\<close>\<close>

record http_response =
  status :: int
  body :: json
  headers :: "(string \<times> string) list"

record 'obj outcome =
  o_state :: "'obj mstate"
  o_log :: "log_event list"
  o_result :: "exc + http_response"
  o_saved :: "json list option"

section \<open>The method lifecycle shared by both views\<close>

text \<open>
  \<open>from_http\<close>, \<open>call_pre_hooks\<close>, \<open>get_output\<close>, \<open>call_post_hooks\<close> in order
  (views.py, lines 90-93 and 162-165), stopping at the first raise. Returns the
  state, the output if \<open>get_output\<close> returned, and the exception raised, if any.
\<close>

definition run_method ::
  "'obj method_impl \<Rightarrow> request \<Rightarrow> 'obj mstate \<Rightarrow> 'obj mstate \<times> envelope option \<times> exc option" where
  "run_method impl req st0 =
     (case from_http impl req st0 of
        (st1, Inl e) \<Rightarrow> (st1, None, Some e)
      | (st1, Inr _) \<Rightarrow>
          (case run_pre_hooks impl st1 of
             (st2, Some e) \<Rightarrow> (st2, None, Some e)
           | (st2, None) \<Rightarrow>
               (case get_output impl st2 of
                  (st3, Inl e) \<Rightarrow> (st3, None, Some e)
                | (st3, Inr out) \<Rightarrow>
                    (case run_post_hooks impl st3 out of
                       (st4, e) \<Rightarrow> (st4, Some out, e)))))"

section \<open>Standard envelope\<close>

definition initial_response :: envelope where
  "initial_response =
     \<lparr>env_result = None, env_success = False, env_errors = NoErrs, env_pagination = None\<rparr>"

text \<open>The list \<open>response['errors']\<close> denotes, given the method's current \<open>errors\<close>.\<close>

fun resolve_errors :: "json list \<Rightarrow> errslot \<Rightarrow> json list option" where
  "resolve_errors merrs NoErrs = None"
| "resolve_errors merrs (ErrsOwn es) = Some es"
| "resolve_errors merrs ErrsAlias = Some merrs"

text \<open>
  \<open>response['errors'] = method.errors or []\<close> followed by
  \<open>response['errors'].append(d)\<close>: a non-empty \<open>method.errors\<close> is shared and grows.
\<close>

definition attach_error :: "'obj mstate \<Rightarrow> envelope \<Rightarrow> json \<Rightarrow> 'obj mstate \<times> envelope" where
  "attach_error st resp d =
     (if m_errors st \<noteq> []
      then (st\<lparr>m_errors := m_errors st @ [d]\<rparr>, resp\<lparr>env_errors := ErrsAlias\<rparr>)
      else (st, resp\<lparr>env_errors := ErrsOwn [d]\<rparr>))"

text \<open>The two \<open>except\<close> clauses (views.py, lines 95-114): new state, response, status, log.\<close>

fun handle_exc ::
  "int \<Rightarrow> 'obj mstate \<Rightarrow> envelope \<Rightarrow> exc option \<Rightarrow> 'obj mstate \<times> envelope \<times> int \<times> log_event list" where
  "handle_exc dflt st resp None = (st, resp, dflt, [])"
| "handle_exc dflt st resp (Some (ApiExc code msg)) =
     (let (st', resp') = attach_error st resp (api_to_dict code msg)
      in (st', resp', code, if code = 0 \<or> 500 \<le> code then [LogWarning msg] else []))"
| "handle_exc dflt st resp (Some (PyExc sc msg txt)) =
     (let code = (case sc of None \<Rightarrow> 500 | Some c \<Rightarrow> c);
          (st', resp') = attach_error st resp (server_error_record code);
          st'' = (case msg of
                    Some m \<Rightarrow> if py_truthy m then st'\<lparr>m_errors := m_errors st' @ [m]\<rparr> else st'
                  | None \<Rightarrow> st')
      in (st'', resp', code, [LogException txt]))"

definition json_of_pval :: "pval option \<Rightarrow> json" where
  "json_of_pval v = (case v of None \<Rightarrow> JNull | Some (PStr s) \<Rightarrow> JStr s | Some (PInt n) \<Rightarrow> JInt n)"

definition json_of_pagination :: "pagination \<Rightarrow> json" where
  "json_of_pagination pg =
     JObj [(''total'', JInt (pg_total pg)), (''limit'', json_of_pval (pg_limit pg)),
           (''offset'', json_of_pval (pg_offset pg))]"

text \<open>The serialised response dict (keys in the order the output dict has them).\<close>

definition render_envelope :: "json list \<Rightarrow> envelope \<Rightarrow> json" where
  "render_envelope merrs env =
     JObj ([(''result'', case env_result env of None \<Rightarrow> JNull | Some xs \<Rightarrow> JList xs),
            (''success'', JBool (env_success env))]
           @ (case resolve_errors merrs (env_errors env) of None \<Rightarrow> [] | Some es \<Rightarrow> [(''errors'', JList es)])
           @ (case env_pagination env of None \<Rightarrow> [] | Some pg \<Rightarrow> [(''pagination'', json_of_pagination pg)]))"

definition finish_json ::
  "'obj mstate \<Rightarrow> envelope \<Rightarrow> int \<Rightarrow> log_event list \<Rightarrow> 'obj outcome" where
  "finish_json st resp code log =
     \<lparr>o_state = st, o_log = log,
      o_result = Inr \<lparr>status = code, body = render_envelope (m_errors st) resp, headers = []\<rparr>,
      o_saved = env_result resp\<rparr>"

text \<open>
  The re-check of views.py, lines 116-124. A string as first error sets the status
  to 500 but then fails on \<open>error.get\<close> in the logging call; any other non-dict
  fails on the first \<open>.get\<close>. A \<open>code\<close> that is not an integer reaches
  \<open>json_response\<close> as the status, which rejects it.
\<close>

definition recheck_status ::
  "int \<Rightarrow> 'obj mstate \<Rightarrow> envelope \<Rightarrow> int \<Rightarrow> log_event list \<Rightarrow> 'obj outcome" where
  "recheck_status dflt st resp code log =
     (case resolve_errors (m_errors st) (env_errors resp) of
        Some (err # _) \<Rightarrow>
          if code = dflt then
            (case err of
               JObj kvs \<Rightarrow>
                 (let log' = log @ [LogError (obj_get kvs ''message'' (JStr ''Server error''))]
                  in (case obj_get kvs ''code'' (JInt dflt) of
                        JInt c \<Rightarrow> finish_json st resp c log'
                      | _ \<Rightarrow> \<lparr>o_state = st, o_log = log', o_result = Inl type_error,
                             o_saved = env_result resp\<rparr>))
             | _ \<Rightarrow> \<lparr>o_state = st, o_log = log, o_result = Inl (attribute_error ''get''),
                    o_saved = None\<rparr>)
          else finish_json st resp code log
      | _ \<Rightarrow> finish_json st resp code log)"

text \<open>\<open>JsonView._process_request(method, default_status)\<close>.\<close>

definition json_process ::
  "'obj method_impl option \<Rightarrow> int \<Rightarrow> request \<Rightarrow> 'obj mstate \<Rightarrow> 'obj outcome" where
  "json_process mo dflt req st0 =
     (case mo of
        None \<Rightarrow> \<lparr>o_state = st0, o_log = [], o_result = Inl bare_method_not_allowed, o_saved = None\<rparr>
      | Some impl \<Rightarrow>
          (case run_method impl req st0 of
             (st1, out, e) \<Rightarrow>
               (let resp = (case out of None \<Rightarrow> initial_response | Some r \<Rightarrow> r)
                in (case handle_exc dflt st1 resp e of
                      (st2, resp', code, log) \<Rightarrow> recheck_status dflt st2 resp' code log))))"

section \<open>Location header and verb dispatch\<close>

text \<open>\<open>reverse_url(url_name, parts)\<close>: a missing name falls back to \<open>app.urls[class name]\<close>.\<close>

definition reverse_url :: "string \<Rightarrow> request \<Rightarrow> string option \<Rightarrow> json \<Rightarrow> exc + string" where
  "reverse_url cls req url_name parts =
     (let name = (case url_name of
                    Some n \<Rightarrow> if n \<noteq> [] then Some n else map_of (app_urls req) cls
                  | None \<Rightarrow> map_of (app_urls req) cls)
      in (case name of
            None \<Rightarrow> Inl (key_error cls)
          | Some n \<Rightarrow>
              (case app_router req n of
                 None \<Rightarrow> Inl (key_error n)
               | Some build \<Rightarrow>
                   (case build parts of None \<Rightarrow> Inl (key_error n) | Some url \<Rightarrow> Inr url))))"

definition set_location ::
  "'obj json_view \<Rightarrow> request \<Rightarrow> json list option \<Rightarrow> http_response \<Rightarrow> exc + http_response" where
  "set_location v req saved resp =
     (case saved of
        Some (r0 # _) \<Rightarrow>
          (case reverse_url (view_name v) req (location_url_name v) r0 of
             Inl e \<Rightarrow> Inl e
           | Inr url \<Rightarrow> Inr (resp\<lparr>headers := headers resp @ [(''Location'', url)]\<rparr>))
      | _ \<Rightarrow> Inr resp)"

definition with_location :: "'obj json_view \<Rightarrow> request \<Rightarrow> 'obj outcome \<Rightarrow> 'obj outcome" where
  "with_location v req oc =
     (case o_result oc of
        Inl e \<Rightarrow> oc
      | Inr r \<Rightarrow> oc\<lparr>o_result := set_location v req (o_saved oc) r\<rparr>)"

text \<open>
  \<open>web.View\<close> dispatch to \<open>get\<close>/\<open>post\<close>/\<open>put\<close>/\<open>delete\<close>, for a given
  \<open>_process_request\<close> (the standard one here, the mobile one in its theory); a verb
  with no handler raises \<open>HTTPMethodNotAllowed\<close>.
\<close>

definition view_handle ::
  "('obj method_impl option \<Rightarrow> int \<Rightarrow> request \<Rightarrow> 'obj mstate \<Rightarrow> 'obj outcome)
   \<Rightarrow> 'obj json_view \<Rightarrow> request \<Rightarrow> 'obj mstate \<Rightarrow> 'obj outcome" where
  "view_handle proc v req st =
     (case req_method req of
        GET \<Rightarrow> proc (get_method v) 200 req st
      | POST \<Rightarrow> with_location v req (proc (post_method v) 201 req st)
      | PUT \<Rightarrow> with_location v req (proc (put_method v) 200 req st)
      | DELETE \<Rightarrow> proc (delete_method v) 204 req st
      | OtherVerb _ \<Rightarrow> \<lparr>o_state = st, o_log = [], o_result = Inl http_method_not_allowed, o_saved = None\<rparr>)"

definition json_view_handle :: "'obj json_view \<Rightarrow> request \<Rightarrow> 'obj mstate \<Rightarrow> 'obj outcome" where
  "json_view_handle = view_handle json_process"

section \<open>Helpers for stating properties\<close>

text \<open>The method bound to a verb and the default status its handler passes.\<close>

fun bound_method :: "'obj json_view \<Rightarrow> verb \<Rightarrow> 'obj method_impl option" where
  "bound_method v GET = get_method v"
| "bound_method v POST = post_method v"
| "bound_method v PUT = put_method v"
| "bound_method v DELETE = delete_method v"
| "bound_method v (OtherVerb _) = None"

fun verb_default :: "verb \<Rightarrow> int" where
  "verb_default POST = 201"
| "verb_default DELETE = 204"
| "verb_default _ = 200"

text \<open>An error record the re-check can read: a dict whose \<open>code\<close>, if any, is an integer.\<close>

definition error_record_ok :: "json \<Rightarrow> bool" where
  "error_record_ok e =
     (case e of JObj kvs \<Rightarrow> (case obj_get kvs ''code'' (JInt 0) of JInt _ \<Rightarrow> True | _ \<Rightarrow> False)
              | _ \<Rightarrow> False)"

fun first_error_ok :: "json list \<Rightarrow> bool" where
  "first_error_ok [] = True"
| "first_error_ok (e # _) = error_record_ok e"

text \<open>What a method must keep true for the re-check never to fail: its first error a dict with an integer code.\<close>

definition preserves_first_error :: "('obj mstate \<Rightarrow> 'obj mstate) \<Rightarrow> bool" where
  "preserves_first_error f \<longleftrightarrow>
     (\<forall>s. first_error_ok (m_errors s) \<longrightarrow> first_error_ok (m_errors (f s)))"

definition keeps_first_error_ok :: "'obj method_impl \<Rightarrow> bool" where
  "keeps_first_error_ok impl \<longleftrightarrow>
     preserves_first_error (\<lambda>s. fst (execute impl s)) \<and>
     (case call_pre_hooks impl of None \<Rightarrow> True | Some h \<Rightarrow> preserves_first_error (\<lambda>s. fst (h s))) \<and>
     (case call_post_hooks impl of
        None \<Rightarrow> True | Some h \<Rightarrow> (\<forall>out. preserves_first_error (\<lambda>s. fst (h s out))))"

definition resolved_first_ok :: "'obj mstate \<Rightarrow> envelope \<Rightarrow> bool" where
  "resolved_first_ok st resp =
     first_error_ok (case resolve_errors (m_errors st) (env_errors resp) of None \<Rightarrow> [] | Some es \<Rightarrow> es)"

section \<open>Lemmas\<close>

subsection \<open>The lifecycle\<close>

lemma run_method_http_err:
  "from_http impl req st = (st1, Inl e) \<Longrightarrow> run_method impl req st = (st1, None, Some e)"
  by (simp add: run_method_def)

lemma run_method_pre_err:
  "from_http impl req st = (st1, Inr u) \<Longrightarrow> run_pre_hooks impl st1 = (st2, Some e) \<Longrightarrow>
   run_method impl req st = (st2, None, Some e)"
  by (simp add: run_method_def)

lemma run_method_output_err:
  "from_http impl req st = (st1, Inr u) \<Longrightarrow> run_pre_hooks impl st1 = (st2, None) \<Longrightarrow>
   get_output impl st2 = (st3, Inl e) \<Longrightarrow> run_method impl req st = (st3, None, Some e)"
  by (simp add: run_method_def)

lemma run_method_output:
  "from_http impl req st = (st1, Inr u) \<Longrightarrow> run_pre_hooks impl st1 = (st2, None) \<Longrightarrow>
   get_output impl st2 = (st3, Inr out) \<Longrightarrow> run_post_hooks impl st3 out = (st4, e) \<Longrightarrow>
   run_method impl req st = (st4, Some out, e)"
  by (simp add: run_method_def)

lemmas run_method_simps = run_method_http_err run_method_pre_err run_method_output_err run_method_output

lemma run_method_no_exc_output: "run_method impl req st = (st', out, None) \<Longrightarrow> out \<noteq> None"
  by (auto simp: run_method_def split: prod.splits sum.splits option.splits)

lemma json_process_run:
  assumes "run_method impl req st = (st1, out, e)"
    and "handle_exc dflt st1 (case out of None \<Rightarrow> initial_response | Some r \<Rightarrow> r) e = (st2, resp, code, log)"
  shows "json_process (Some impl) dflt req st = recheck_status dflt st2 resp code log"
  using assms by (simp add: json_process_def)

subsection \<open>Exception handling and the re-check\<close>

lemma attach_error_resolves:
  "attach_error st resp d = (st', resp') \<Longrightarrow>
   resolve_errors (m_errors st') (env_errors resp') = Some (m_errors st @ [d])"
  by (auto simp: attach_error_def split: if_splits)

lemma handle_exc_api:
  "handle_exc dflt st resp (Some (ApiExc c m)) =
     (st\<lparr>m_errors := if m_errors st \<noteq> [] then m_errors st @ [api_to_dict c m] else m_errors st\<rparr>,
      resp\<lparr>env_errors := if m_errors st \<noteq> [] then ErrsAlias else ErrsOwn [api_to_dict c m]\<rparr>,
      c, if c = 0 \<or> 500 \<le> c then [LogWarning m] else [])"
  by (simp add: attach_error_def)

lemma handle_exc_py_fresh:
  "m_errors st = [] \<Longrightarrow>
   handle_exc dflt st resp (Some (PyExc sc msg txt)) =
     (let code = (case sc of None \<Rightarrow> 500 | Some c \<Rightarrow> c)
      in (st\<lparr>m_errors := (case msg of Some m \<Rightarrow> if py_truthy m then [m] else [] | None \<Rightarrow> [])\<rparr>,
          resp\<lparr>env_errors := ErrsOwn [server_error_record code]\<rparr>, code, [LogException txt]))"
  by (simp add: attach_error_def Let_def split: option.splits)

lemma recheck_finish:
  "(\<forall>err rest. resolve_errors (m_errors st) (env_errors resp) \<noteq> Some (err # rest)) \<or> code \<noteq> dflt \<Longrightarrow>
   recheck_status dflt st resp code log = finish_json st resp code log"
  by (auto simp: recheck_status_def split: option.splits list.splits)

lemma recheck_dict:
  "resolve_errors (m_errors st) (env_errors resp) = Some (JObj kvs # rest) \<Longrightarrow>
   obj_get kvs ''code'' (JInt dflt) = JInt c \<Longrightarrow>
   recheck_status dflt st resp dflt log =
     finish_json st resp c (log @ [LogError (obj_get kvs ''message'' (JStr ''Server error''))])"
  by (simp add: recheck_status_def)

lemma recheck_str:
  "resolve_errors (m_errors st) (env_errors resp) = Some (JStr s # rest) \<Longrightarrow>
   o_result (recheck_status dflt st resp dflt log) = Inl (attribute_error ''get'')"
  by (simp add: recheck_status_def)

lemma server_error_record_ok [simp]: "error_record_ok (server_error_record c)"
  by (simp add: error_record_ok_def server_error_record_def obj_get_def)

lemma api_to_dict_ok [simp]: "error_record_ok (api_to_dict c m)"
  by (simp add: error_record_ok_def api_to_dict_def obj_get_def)

lemma error_record_ok_code:
  "error_record_ok e \<Longrightarrow> \<exists>kvs c. e = JObj kvs \<and> obj_get kvs ''code'' (JInt d) = JInt c"
  by (auto simp: error_record_ok_def obj_get_def split: json.splits option.splits)

lemma recheck_ok:
  "first_error_ok (case resolve_errors (m_errors st) (env_errors resp) of None \<Rightarrow> [] | Some es \<Rightarrow> es) \<Longrightarrow>
   \<exists>r. o_result (recheck_status dflt st resp code log) = Inr r"
  by (auto simp: recheck_status_def finish_json_def Let_def error_record_ok_def obj_get_def
      split: option.splits list.splits json.splits)

lemma first_error_ok_append [simp]:
  "first_error_ok (xs @ ys) = (if xs = [] then first_error_ok ys else first_error_ok xs)"
  by (cases xs) auto

lemma get_output_slot:
  "get_output impl st = (st', Inr out) \<Longrightarrow> env_errors out = NoErrs \<or> env_errors out = ErrsAlias"
  by (auto simp: get_output_def Let_def split_def split: prod.splits sum.splits if_splits)

lemma run_method_first_error:
  assumes "keeps_first_error_ok impl" and "run_method impl req st = (st1, out, e)"
  shows "first_error_ok (m_errors st1) \<and>
         (\<forall>r. out = Some r \<longrightarrow> env_errors r = NoErrs \<or> env_errors r = ErrsAlias)"
proof -
  obtain s1 r1 where h: "from_http impl req st = (s1, r1)" by fastforce
  have ok1: "first_error_ok (m_errors s1)"
    using from_http_errors [of impl req st] h by simp
  have pre: "first_error_ok (m_errors (fst (run_pre_hooks impl s)))" if "first_error_ok (m_errors s)" for s
    using assms(1) that
    by (auto simp: run_pre_hooks_def keeps_first_error_ok_def preserves_first_error_def
        attribute_error_def split: option.splits)
  have exe: "first_error_ok (m_errors (fst (get_output impl s)))" if "first_error_ok (m_errors s)" for s
    using assms(1) that get_output_errors [of impl s "fst (execute impl s)" "snd (execute impl s)"]
    by (simp add: keeps_first_error_ok_def preserves_first_error_def)
  have post: "first_error_ok (m_errors (fst (run_post_hooks impl s o')))" if "first_error_ok (m_errors s)" for s o'
    using assms(1) that
    by (auto simp: run_post_hooks_def keeps_first_error_ok_def preserves_first_error_def
        attribute_error_def split: option.splits)
  show ?thesis
  proof (cases r1)
    case (Inl e1)
    with assms(2) h ok1 show ?thesis by (simp add: run_method_http_err)
  next
    case (Inr u)
    obtain s2 e2 where p: "run_pre_hooks impl s1 = (s2, e2)" by fastforce
    have ok2: "first_error_ok (m_errors s2)" using pre [OF ok1] p by simp
    show ?thesis
    proof (cases e2)
      case (Some x)
      with assms(2) h Inr p ok2 show ?thesis by (simp add: run_method_pre_err)
    next
      case None
      obtain s3 r3 where g: "get_output impl s2 = (s3, r3)" by fastforce
      have ok3: "first_error_ok (m_errors s3)" using exe [OF ok2] g by simp
      show ?thesis
      proof (cases r3)
        case (Inl x)
        with assms(2) h Inr p None g ok3 show ?thesis by (simp add: run_method_output_err)
      next
        case (Inr out')
        obtain s4 e4 where q: "run_post_hooks impl s3 out' = (s4, e4)" by fastforce
        have "first_error_ok (m_errors s4)" using post [OF ok3, of out'] q by simp
        moreover have "env_errors out' = NoErrs \<or> env_errors out' = ErrsAlias"
          using get_output_slot g Inr by blast
        ultimately show ?thesis
          using assms(2) run_method_output [OF h [unfolded \<open>r1 = Inr u\<close>] p [unfolded None] g [unfolded Inr] q]
          by auto
      qed
    qed
  qed
qed
lemma handle_exc_first_error:
  assumes "first_error_ok (m_errors st)" and "env_errors resp = NoErrs \<or> env_errors resp = ErrsAlias"
    and "handle_exc dflt st resp e = (st', resp', code, log)"
  shows "resolved_first_ok st' resp'"
proof (cases e)
  case None
  with assms show ?thesis by (auto simp: resolved_first_ok_def)
next
  case (Some x)
  then show ?thesis
  proof (cases x)
    case (ApiExc c m)
    with Some assms show ?thesis
      by (auto simp: resolved_first_ok_def attach_error_def split: if_splits)
  next
    case (PyExc sc msg t)
    with Some assms show ?thesis
      by (auto simp: resolved_first_ok_def attach_error_def Let_def split: if_splits option.splits)
  qed
qed

subsection \<open>Location\<close>

lemma with_location_saved:
  "o_result oc = Inr r \<Longrightarrow> o_saved oc = Some (r0 # rs) \<Longrightarrow>
   reverse_url (view_name v) req (location_url_name v) r0 = Inr url \<Longrightarrow>
   with_location v req oc = oc\<lparr>o_result := Inr (r\<lparr>headers := headers r @ [(''Location'', url)]\<rparr>)\<rparr>"
  by (simp add: with_location_def set_location_def)

lemma with_location_empty:
  "o_saved oc = None \<or> o_saved oc = Some [] \<Longrightarrow> with_location v req oc = oc"
  by (cases "o_result oc") (auto simp: with_location_def set_location_def)

lemma view_handle_bound:
  "bound_method v (req_method req) = mo \<Longrightarrow>
   view_handle proc v req st =
     (case req_method req of
        POST \<Rightarrow> with_location v req (proc mo 201 req st)
      | PUT \<Rightarrow> with_location v req (proc mo 200 req st)
      | OtherVerb _ \<Rightarrow> \<lparr>o_state = st, o_log = [], o_result = Inl http_method_not_allowed, o_saved = None\<rparr>
      | _ \<Rightarrow> proc mo (verb_default (req_method req)) req st)"
  by (cases "req_method req") (auto simp: view_handle_def)


subsection \<open>Outcomes of the standard handler\<close>

lemma json_process_after_output:
  assumes http: "from_http impl req st = (st1, Inr u)"
    and pre: "call_pre_hooks impl = Some (\<lambda>s. (s, None))"
    and exe: "execute impl st1 = (st2, Inr objs)"
    and ser: "map_exc (output_model impl) objs = Inr prims"
    and post: "call_post_hooks impl = Some h"
  shows "json_process (Some impl) dflt req st =
     (let st3 = fst (get_pagination (st2\<lparr>m_result := Some objs\<rparr>));
          out = \<lparr>env_result = Some prims, env_success = (m_errors st2 = []),
                 env_errors = (if m_errors st2 \<noteq> [] then ErrsAlias else NoErrs),
                 env_pagination = snd (get_pagination (st2\<lparr>m_result := Some objs\<rparr>))\<rparr>;
          (st4, e) = h (st3\<lparr>m_output := Some out\<rparr>) out;
          (st5, resp, code, log) = handle_exc dflt st4 out e
      in recheck_status dflt st5 resp code log)"
proof -
  have pre': "run_pre_hooks impl st1 = (st1, None)"
    using pre by (simp add: run_pre_hooks_def)
  note out = get_output_ok [OF exe ser]
  show ?thesis
    using run_method_output [OF http pre' out [unfolded Let_def]]
    by (simp add: json_process_run run_post_hooks_def post Let_def split: prod.splits)
qed

lemma json_process_server_fault:
  assumes "run_method impl req st = (st1, None, Some (PyExc None msg txt))"
    and "m_errors st1 = []"
  shows "o_result (json_process (Some impl) dflt req st) =
           Inr \<lparr>status = 500,
                body = render_envelope []
                  \<lparr>env_result = None, env_success = False,
                   env_errors = ErrsOwn [server_error_record 500], env_pagination = None\<rparr>,
                headers = []\<rparr>"
  using assms
  by (simp add: json_process_def attach_error_def recheck_status_def initial_response_def
      server_error_record_def obj_get_def finish_json_def render_envelope_def split: option.splits)

text \<open>
  C1. Success path of the standard flavour: when validation passes, the hooks are
  the no-ops the spec describes, \<open>execute\<close> returns objects without recording
  errors and every object serialises, the handler answers with the default status,
  \<open>success = true\<close>, the serialised objects as \<open>result\<close>, no \<open>errors\<close> key,
  the pagination block computed from the method's state, and logs nothing.
\<close>

theorem json_process_success:
  assumes "from_http impl req st = (st1, Inr u)"
    and "call_pre_hooks impl = Some (\<lambda>s. (s, None))"
    and "call_post_hooks impl = Some (\<lambda>s out. (s, None))"
    and "execute impl st1 = (st2, Inr objs)"
    and "m_errors st2 = []"
    and "map_exc (output_model impl) objs = Inr prims"
  shows "o_result (json_process (Some impl) dflt req st) =
           Inr \<lparr>status = dflt,
                body = render_envelope []
                  \<lparr>env_result = Some prims, env_success = True, env_errors = NoErrs,
                   env_pagination = snd (get_pagination (st2\<lparr>m_result := Some objs\<rparr>))\<rparr>,
                headers = []\<rparr>
       \<and> o_log (json_process (Some impl) dflt req st) = []"
  using json_process_after_output [OF assms(1,2,4,6,3)] assms(5)
  by (simp add: Let_def recheck_finish finish_json_def render_envelope_def)

text \<open>
  C2. A request whose input fails validation is answered with status 400 and an
  envelope whose only error is the \<open>BadRequestException\<close> record carrying the
  normalised field errors; \<open>result\<close> is null, nothing is logged, and the method's
  errors are reset, its cursors set and its parameters untouched.
\<close>

theorem json_process_bad_request:
  assumes "is_web_request req" and "resolve_cursors impl req = (lim, off, q)"
    and "validate_input impl req q = Some (SDataErr ms)" and "dflt \<noteq> 400"
  shows "json_process (Some impl) dflt req st =
     \<lparr>o_state = st\<lparr>m_errors := [], m_result := Some [], m_limit := Some lim, m_offset := Some off\<rparr>,
      o_log = [],
      o_result = Inr \<lparr>status = 400,
                      body = render_envelope []
                        (initial_response\<lparr>env_errors :=
                           ErrsOwn [api_to_dict 400 (bad_request_message (collect_errors ms))]\<rparr>),
                      headers = []\<rparr>,
      o_saved = None\<rparr>"
proof -
  have "run_method impl req st =
    (st\<lparr>m_errors := [], m_result := Some [], m_limit := Some lim, m_offset := Some off\<rparr>, None,
     Some (bad_request_exc (bad_request_message (collect_errors ms))))"
    by (rule run_method_http_err) (rule from_http_data_err [OF assms(1-3)])
  then show ?thesis
    using assms(4)
    by (simp add: json_process_def attach_error_def bad_request_exc_def recheck_finish
        finish_json_def initial_response_def)
qed

text \<open>
  C4. A method whose \<open>execute\<close> is \<open>BaseMethod.execute\<close> (it raises
  \<open>NotImplementedError\<close>) is answered with status 500 and one generic
  \<open>Server error\<close> record, never with the exception's text.
\<close>

theorem json_process_not_implemented:
  assumes "from_http impl req st = (st1, Inr u)"
    and "call_pre_hooks impl = Some (\<lambda>s. (s, None))"
    and "execute impl = base_execute"
  shows "o_result (json_process (Some impl) dflt req st) =
           Inr \<lparr>status = 500,
                body = render_envelope []
                  \<lparr>env_result = None, env_success = False,
                   env_errors = ErrsOwn [server_error_record 500], env_pagination = None\<rparr>,
                headers = []\<rparr>"
proof -
  have "run_pre_hooks impl st1 = (st1, None)"
    by (simp add: run_pre_hooks_def assms(2))
  moreover have "get_output impl st1 = (st1, Inl not_implemented_error)"
    by (simp add: get_output_exec_err assms(3) base_execute_def)
  ultimately have "run_method impl req st = (st1, None, Some not_implemented_error)"
    by (rule run_method_output_err [OF assms(1)])
  moreover have "m_errors st1 = []"
    using from_http_errors [of impl req st] assms(1) by simp
  ultimately show ?thesis
    by (simp add: not_implemented_error_def json_process_server_fault)
qed

text \<open>
  C5. \<open>BaseMethod\<close> defines no \<open>call_pre_hooks\<close>: for a method that does not add
  it, every request that passes validation fails with \<open>AttributeError\<close> and is
  answered with status 500 and a generic \<open>Server error\<close> record, whatever its
  \<open>execute\<close> does.
\<close>

theorem json_process_missing_pre_hooks:
  assumes "from_http impl req st = (st1, Inr u)"
    and "call_pre_hooks impl = None"
  shows "o_result (json_process (Some impl) dflt req st) =
           Inr \<lparr>status = 500,
                body = render_envelope []
                  \<lparr>env_result = None, env_success = False,
                   env_errors = ErrsOwn [server_error_record 500], env_pagination = None\<rparr>,
                headers = []\<rparr>"
proof -
  have "run_pre_hooks impl st1 = (st1, Some (attribute_error ''call_pre_hooks''))"
    by (simp add: run_pre_hooks_def assms(2))
  then have "run_method impl req st = (st1, None, Some (attribute_error ''call_pre_hooks''))"
    by (rule run_method_pre_err [OF assms(1)])
  moreover have "m_errors st1 = []"
    using from_http_errors [of impl req st] assms(1) by simp
  ultimately show ?thesis
    by (simp add: attribute_error_def json_process_server_fault)
qed


text \<open>
  C6. Safety of the standard flavour: for a bound method whose \<open>execute\<close> and
  hooks keep the first recorded error a dict with an integer \<open>code\<close> (or record
  none), \<open>_process_request\<close> always renders an envelope: no exception escapes it,
  whatever the request, the validation outcome or the faults raised on the way.
\<close>

theorem json_process_total:
  assumes "keeps_first_error_ok impl"
  shows "\<exists>r. o_result (json_process (Some impl) dflt req st) = Inr r"
proof -
  obtain st1 out e where rm: "run_method impl req st = (st1, out, e)"
    by (metis prod_cases3)
  note inv = run_method_first_error [OF assms rm]
  let ?resp = "case out of None \<Rightarrow> initial_response | Some r \<Rightarrow> r"
  have slot: "env_errors ?resp = NoErrs \<or> env_errors ?resp = ErrsAlias"
    using inv by (cases out) (auto simp: initial_response_def)
  obtain st2 resp code log where he: "handle_exc dflt st1 ?resp e = (st2, resp, code, log)"
    by (metis prod_cases4)
  have "resolved_first_ok st2 resp"
    using handle_exc_first_error [OF conjunct1 [OF inv] slot he] .
  then show ?thesis
    using json_process_run [OF rm he] recheck_ok by (simp add: resolved_first_ok_def)
qed
text \<open>
  C12. When \<open>execute\<close> records error dicts without raising, the standard
  response has \<open>success = false\<close>, shows the method's errors, and its status is
  the \<open>code\<close> of the first error, not the default status the spec promises for
  a request on which nothing raised.
\<close>

theorem json_process_execute_errors:
  assumes "from_http impl req st = (st1, Inr u)"
    and "call_pre_hooks impl = Some (\<lambda>s. (s, None))"
    and "call_post_hooks impl = Some (\<lambda>s out. (s, None))"
    and "execute impl st1 = (st2, Inr objs)"
    and "m_errors st2 = JObj kvs # rest" and "map_of kvs ''code'' = Some (JInt c)"
    and "map_exc (output_model impl) objs = Inr prims"
  shows "o_result (json_process (Some impl) dflt req st) =
           Inr \<lparr>status = c,
                body = render_envelope (m_errors st2)
                  \<lparr>env_result = Some prims, env_success = False, env_errors = ErrsAlias,
                   env_pagination = snd (get_pagination (st2\<lparr>m_result := Some objs\<rparr>))\<rparr>,
                headers = []\<rparr>"
  using json_process_after_output [OF assms(1,2,4,7,3)] assms(5,6)
  by (simp add: Let_def recheck_status_def finish_json_def obj_get_def)

text \<open>
  C13. When the first recorded error is a plain string and nothing raised, the
  status re-check sets the status to 500 and then calls \<open>error.get\<close> on the
  string: \<open>_process_request\<close> itself raises \<open>AttributeError\<close> instead of
  rendering an envelope.
\<close>

theorem json_process_string_error_crash:
  assumes "from_http impl req st = (st1, Inr u)"
    and "call_pre_hooks impl = Some (\<lambda>s. (s, None))"
    and "call_post_hooks impl = Some (\<lambda>s out. (s, None))"
    and "execute impl st1 = (st2, Inr objs)"
    and "m_errors st2 = JStr msg # rest"
    and "map_exc (output_model impl) objs = Inr prims"
  shows "o_result (json_process (Some impl) dflt req st) = Inl (attribute_error ''get'')"
  using json_process_after_output [OF assms(1,2,4,6,3)] assms(5)
  by (simp add: Let_def recheck_status_def)

text \<open>
  C14. On an unclassified exception with a truthy \<open>message\<close>, the rendered errors
  are the method's earlier errors, the generic \<open>Server error\<close> record and, when
  there were earlier errors, the raw message too: \<open>method.errors\<close> is the same
  list object as \<open>response['errors']\<close> then, so the message leaks to the client.
  The status is the exception's \<open>status_code\<close> or 500, and the exception is logged.
\<close>

theorem handle_exc_message_errors:
  assumes "handle_exc dflt st resp (Some (PyExc sc (Some m) t)) = (st', resp', c, log)"
  shows "resolve_errors (m_errors st') (env_errors resp') =
           Some (m_errors st @ [server_error_record c] @
                 (if m_errors st \<noteq> [] \<and> py_truthy m then [m] else [])) \<and>
         c = (case sc of None \<Rightarrow> 500 | Some x \<Rightarrow> x) \<and> log = [LogException t]"
  using assms by (auto simp: attach_error_def Let_def split: if_splits)

text \<open>
  C15. When \<open>call_post_hooks\<close> raises an API fault after a clean output, the
  response keeps the output's \<open>success = true\<close> and gains an \<open>errors\<close> list
  with the fault: \<open>success\<close> no longer agrees with the presence of errors.
\<close>

theorem json_process_post_hook_fault:
  assumes "from_http impl req st = (st1, Inr u)"
    and "call_pre_hooks impl = Some (\<lambda>s. (s, None))"
    and "call_post_hooks impl = Some (\<lambda>s out. (s, Some (ApiExc c m)))"
    and "execute impl st1 = (st2, Inr objs)" and "m_errors st2 = []"
    and "map_exc (output_model impl) objs = Inr prims" and "c \<noteq> dflt"
  shows "o_result (json_process (Some impl) dflt req st) =
           Inr \<lparr>status = c,
                body = render_envelope []
                  \<lparr>env_result = Some prims, env_success = True,
                   env_errors = ErrsOwn [api_to_dict c m],
                   env_pagination = snd (get_pagination (st2\<lparr>m_result := Some objs\<rparr>))\<rparr>,
                headers = []\<rparr>"
  using json_process_after_output [OF assms(1,2,4,6,3)] assms(5,7)
  by (simp add: Let_def attach_error_def recheck_finish finish_json_def render_envelope_def)

text \<open>
  C16. A request whose verb has no bound method never reaches the method, whose
  state is untouched. For GET, POST, PUT and DELETE the handler's bare
  \<open>raise web.HTTPMethodNotAllowed\<close> fails with \<open>TypeError\<close>, answered 500,
  not the 405 the spec requires; only a verb outside the four, rejected by
  \<open>web.View\<close> itself, gets 405.
\<close>

theorem json_view_unmapped_verb:
  assumes "bound_method v (req_method req) = None"
  shows "o_state (json_view_handle v req st) = st \<and>
         o_result (json_view_handle v req st) =
           Inl (case req_method req of OtherVerb _ \<Rightarrow> http_method_not_allowed | _ \<Rightarrow> bare_method_not_allowed)"
  using assms
  by (cases "req_method req")
     (simp_all add: json_view_handle_def view_handle_bound json_process_def with_location_def)

text \<open>
  C17. For POST, and also for PUT, a rendered response gains a \<open>Location\<close>
  header exactly when the saved \<open>result\<close> is non-empty, built by the router
  from the first result item; an empty or missing result adds no header.
\<close>

theorem json_view_location:
  assumes "req_method req = POST \<or> req_method req = PUT"
    and "bound_method v (req_method req) = Some impl"
    and "o_result (json_process (Some impl) (verb_default (req_method req)) req st) = Inr r"
    and "\<forall>r0 rs. o_saved (json_process (Some impl) (verb_default (req_method req)) req st) = Some (r0 # rs)
              \<longrightarrow> reverse_url (view_name v) req (location_url_name v) r0 = Inr url"
  shows "o_result (json_view_handle v req st) =
           Inr (r\<lparr>headers := headers r @
                  (case o_saved (json_process (Some impl) (verb_default (req_method req)) req st) of
                     Some (r0 # _) \<Rightarrow> [(''Location'', url)]
                   | _ \<Rightarrow> [])\<rparr>)"
  using assms by (auto simp: json_view_handle_def view_handle_bound with_location_def set_location_def split: option.splits list.splits)


text \<open>
  C22. The method instances are class attributes of the view, shared by every
  request: \<open>from_http\<close> resets only \<open>errors\<close> and \<open>result\<close>, so a request
  whose \<open>execute\<close> does not set \<open>total\<close> is answered with the
  \<open>pagination.total\<close> left by an earlier request on the same instance.
\<close>

theorem json_process_stale_total:
  assumes "from_http impl req st = (st1, Inr u)"
    and "call_pre_hooks impl = Some (\<lambda>s. (s, None))"
    and "call_post_hooks impl = Some (\<lambda>s out. (s, None))"
    and "execute impl st1 = (st1, Inr objs)"
    and "map_exc (output_model impl) objs = Inr prims"
    and "m_total st = Some n" and "n \<noteq> 0"
  shows "o_result (json_process (Some impl) dflt req st) =
           Inr \<lparr>status = dflt,
                body = render_envelope []
                  \<lparr>env_result = Some prims, env_success = True, env_errors = NoErrs,
                   env_pagination = Some \<lparr>pg_total = n, pg_limit = m_limit st1, pg_offset = m_offset st1\<rparr>\<rparr>,
                headers = []\<rparr>"
proof -
  have "m_total st1 = Some n" and "m_errors st1 = []"
    using from_http_frame [of impl req st] from_http_errors [of impl req st] assms(1,6) by simp_all
  then show ?thesis
    using json_process_after_output [OF assms(1,2,4,5,3)] assms(7)
    by (simp add: Let_def get_pagination_def recheck_finish finish_json_def render_envelope_def)
qed

text \<open>
  C31. For POST, when the method has succeeded with a non-empty result but the
  \<open>Location\<close> URL cannot be built (no URL name for the view, or no route), the
  exception escapes \<open>post()\<close> instead of an envelope, although the method has
  run and left its state; the spec says every invocation ends in a rendered
  envelope.
\<close>

theorem json_view_location_error:
  assumes "req_method req = POST" and "post_method v = Some impl"
    and "o_result (json_process (Some impl) 201 req st) = Inr r"
    and "o_saved (json_process (Some impl) 201 req st) = Some (r0 # rs)"
    and "reverse_url (view_name v) req (location_url_name v) r0 = Inl e"
  shows "o_result (json_view_handle v req st) = Inl e \<and>
         o_state (json_view_handle v req st) = o_state (json_process (Some impl) 201 req st)"
  using assms by (simp add: json_view_handle_def view_handle_def with_location_def set_location_def)

end
