(* ===== verification/MobileView.thy ===== *)
theory MobileView
  imports JsonView
begin

text \<open>
  \<open>MobileApiJsonView\<close> (djaio/core/views.py, lines 141-178): the same lifecycle,
  a \<open>{code, data, error?, errors?}\<close> response and a fixed HTTP status. It inherits
  \<open>get\<close>/\<open>post\<close>/\<open>put\<close>/\<open>delete\<close> from \<open>JsonView\<close>, so it is \<open>view_handle\<close>
  applied to \<open>mobile_process\<close>; its saved response has no \<open>'result'\<close> key.
\<close>

record mobile_response =
  mr_code :: int
  mr_data :: "(json list option \<times> pagination option) option"
  mr_error :: "json option"
  mr_errors :: "json list option"

definition mobile_initial :: mobile_response where
  "mobile_initial = \<lparr>mr_code = 0, mr_data = None, mr_error = None, mr_errors = None\<rparr>"

text \<open>
  \<open>set_errors(response, method.errors, exc)\<close>: \<open>method.errors\<close> is always a list,
  so the message is appended to it, the first entry becomes \<open>error\<close> and the rest,
  if any, \<open>errors\<close>.
\<close>

definition set_errors :: "'obj mstate \<Rightarrow> json \<Rightarrow> mobile_response \<Rightarrow> 'obj mstate \<times> mobile_response" where
  "set_errors st e resp =
     (let errs = m_errors st @ [e]
      in (st\<lparr>m_errors := errs\<rparr>,
          case errs of
            [] \<Rightarrow> resp
          | e0 # rest \<Rightarrow>
              resp\<lparr>mr_error := Some e0,
                   mr_errors := (if 1 < length errs then Some rest else mr_errors resp)\<rparr>))"

definition render_mobile :: "mobile_response \<Rightarrow> json" where
  "render_mobile r =
     JObj ([(''code'', JInt (mr_code r)),
            (''data'', case mr_data r of
                         None \<Rightarrow> JObj []
                       | Some (res, pg) \<Rightarrow>
                           JObj [(''result'', case res of None \<Rightarrow> JNull | Some xs \<Rightarrow> JList xs),
                                 (''pagination'', case pg of None \<Rightarrow> JNull | Some p \<Rightarrow> json_of_pagination p)])]
           @ (case mr_error r of None \<Rightarrow> [] | Some e \<Rightarrow> [(''error'', e)])
           @ (case mr_errors r of None \<Rightarrow> [] | Some es \<Rightarrow> [(''errors'', JList es)]))"

text \<open>\<open>MobileApiJsonView._process_request(method, default_status)\<close>.\<close>

definition mobile_process ::
  "'obj method_impl option \<Rightarrow> int \<Rightarrow> request \<Rightarrow> 'obj mstate \<Rightarrow> 'obj outcome" where
  "mobile_process mo dflt req st0 =
     (case mo of
        None \<Rightarrow> \<lparr>o_state = st0, o_log = [], o_result = Inl bare_method_not_allowed, o_saved = None\<rparr>
      | Some impl \<Rightarrow>
          (case run_method impl req st0 of
             (st1, out, e) \<Rightarrow>
               (let (st2, resp) =
                  (case e of
                     None \<Rightarrow>
                       (st1, case out of
                               None \<Rightarrow> mobile_initial
                             | Some r \<Rightarrow> mobile_initial\<lparr>mr_data := Some (env_result r, env_pagination r)\<rparr>)
                   | Some (ApiExc code msg) \<Rightarrow> set_errors st1 msg (mobile_initial\<lparr>mr_code := code\<rparr>)
                   | Some (PyExc _ _ txt) \<Rightarrow> set_errors st1 (JStr txt) (mobile_initial\<lparr>mr_code := 500\<rparr>))
                in \<lparr>o_state = st2, o_log = [],
                    o_result = Inr \<lparr>status = dflt, body = render_mobile resp, headers = []\<rparr>,
                    o_saved = None\<rparr>)))"

definition mobile_view_handle :: "'obj json_view \<Rightarrow> request \<Rightarrow> 'obj mstate \<Rightarrow> 'obj outcome" where
  "mobile_view_handle = view_handle mobile_process"

section \<open>Lemmas\<close>

lemma mobile_process_shape:
  "\<exists>b. o_result (mobile_process (Some impl) dflt req st) = Inr \<lparr>status = dflt, body = b, headers = []\<rparr> \<and>
       o_saved (mobile_process (Some impl) dflt req st) = None"
  by (auto simp: mobile_process_def split_def Let_def split: prod.splits option.splits exc.splits)

text \<open>
  C18. The mobile flavour always answers a bound verb with the handler's fixed
  status (200 for GET and PUT, 201 for POST, 204 for DELETE), whatever happened,
  and never adds a \<open>Location\<close> header: its saved response has no \<open>result\<close>.
\<close>

theorem mobile_view_status:
  assumes "bound_method v (req_method req) = Some impl"
  shows "\<exists>r. o_result (mobile_view_handle v req st) = Inr r \<and>
             status r = verb_default (req_method req) \<and> headers r = []"
proof -
  have H1: "\<exists>r. o_result (mobile_process (Some impl) d req st) = Inr r \<and> status r = d \<and> headers r = []"
    for d using mobile_process_shape [of impl d req st] by auto
  have H2: "\<exists>r. o_result (with_location v req (mobile_process (Some impl) d req st)) = Inr r \<and>
                status r = d \<and> headers r = []"
    for d using H1 [of d] mobile_process_shape [of impl d req st] with_location_empty by metis
  show ?thesis
    using assms
    by (cases "req_method req") (simp_all add: mobile_view_handle_def view_handle_bound H1 H2)
qed

text \<open>
  C19. On the mobile success path the response is \<open>code = 0\<close> with the result and
  pagination, and no \<open>error\<close>/\<open>errors\<close> key, even when \<open>execute\<close> recorded
  errors: errors recorded without raising are dropped.
\<close>

theorem mobile_process_drops_errors:
  assumes "from_http impl req st = (st1, Inr u)"
    and "call_pre_hooks impl = Some (\<lambda>s. (s, None))"
    and "call_post_hooks impl = Some (\<lambda>s out. (s, None))"
    and "execute impl st1 = (st2, Inr objs)"
    and "map_exc (output_model impl) objs = Inr prims"
  shows "o_result (mobile_process (Some impl) dflt req st) =
           Inr \<lparr>status = dflt,
                body = render_mobile
                  \<lparr>mr_code = 0,
                   mr_data = Some (Some prims, snd (get_pagination (st2\<lparr>m_result := Some objs\<rparr>))),
                   mr_error = None, mr_errors = None\<rparr>,
                headers = []\<rparr>"
proof -
  have pre: "run_pre_hooks impl st1 = (st1, None)" using assms(2) by (simp add: run_pre_hooks_def)
  note out = get_output_ok [OF assms(4,5)]
  show ?thesis
    using run_method_output [OF assms(1) pre out [unfolded Let_def]]
    by (simp add: mobile_process_def run_post_hooks_def assms(3) mobile_initial_def Let_def)
qed

text \<open>
  C20. An API fault in the mobile flavour gives \<open>code\<close> = the fault's status;
  the fault's message is appended to \<open>method.errors\<close>, the first entry of that
  list becomes \<open>error\<close> and the rest, if any, \<open>errors\<close>.
\<close>

theorem mobile_process_api_fault:
  assumes "run_method impl req st = (st1, out, Some (ApiExc c m))"
  shows "o_state (mobile_process (Some impl) dflt req st) = st1\<lparr>m_errors := m_errors st1 @ [m]\<rparr> \<and>
         o_result (mobile_process (Some impl) dflt req st) =
           Inr \<lparr>status = dflt,
                body = render_mobile
                  \<lparr>mr_code = c, mr_data = None,
                   mr_error = Some (case m_errors st1 of [] \<Rightarrow> m | e0 # _ \<Rightarrow> e0),
                   mr_errors = (case m_errors st1 of [] \<Rightarrow> None | _ # rest \<Rightarrow> Some (rest @ [m]))\<rparr>,
                headers = []\<rparr>"
  using assms
  by (simp add: mobile_process_def set_errors_def mobile_initial_def Let_def split: list.splits)

end
