(* ===== verification/Cli.thy ===== *)
theory Cli
  imports Prelude
begin

text \<open>
  The command line entry \<open>Djaio\<close> of \<open>djaio/__init__.py\<close>. \<open>Djaio.__init__\<close>
  stores \<open>sys.argv\<close> and the application built by \<open>init_app()\<close> (server.py,
  not part of the sources, so the application is a parameter here) and applies a
  callable \<open>custom_init\<close> to it. \<open>Djaio.run\<close> is modelled as the ordered list of
  its effects: the lines it prints and the blocking \<open>web.run_app(app, host, port)\<close>
  call. Python's \<open>str.split(sep)\<close> and the tail of \<open>os.path.split\<close>
  (posixpath) are written out, since the usage line depends on them.
\<close>

record 'app djaio =
  d_argv :: "string list"
  d_app :: 'app

text \<open>\<open>Djaio.__init__\<close>: \<open>custom_init\<close> is \<open>Some f\<close> when it is callable; a
  non-callable value is ignored like \<open>None\<close>.\<close>

definition djaio_init :: "string list \<Rightarrow> 'app \<Rightarrow> ('app \<Rightarrow> 'app) option \<Rightarrow> 'app djaio" where
  "djaio_init argv app custom_init =
     \<lparr>d_argv = argv, d_app = (case custom_init of Some f \<Rightarrow> f app | None \<Rightarrow> app)\<rparr>"

text \<open>\<open>s.split(c)\<close>: the pieces between the occurrences of \<open>c\<close>, empty ones included.\<close>

fun py_split :: "char \<Rightarrow> string \<Rightarrow> string list" where
  "py_split c [] = [[]]"
| "py_split c (x # xs) =
     (if x = c then [] # py_split c xs
      else (case py_split c xs of w # ws \<Rightarrow> (x # w) # ws | [] \<Rightarrow> [[x]]))"

text \<open>\<open>os.path.split(p)[1]\<close>: what follows the last slash.\<close>

definition path_tail :: "string \<Rightarrow> string" where
  "path_tail p = rev (takeWhile (\<lambda>c. c \<noteq> CHR ''/'') (rev p))"

datatype cli_effect =
    CPrint string             \<comment> \<open>\<open>print(line)\<close>\<close>
  | CRunApp string string     \<comment> \<open>\<open>web.run_app(self.app, host=host, port=port)\<close>, blocking\<close>

datatype argv_error = IndexError | ValueError

text \<open>\<open>self.argv[1]\<close>, \<open>'help'\<close> when it raises \<open>IndexError\<close>.\<close>

definition subcommand :: "string list \<Rightarrow> string" where
  "subcommand argv = (case drop 1 argv of [] \<Rightarrow> ''help'' | s # _ \<Rightarrow> s)"

text \<open>\<open>host, port = self.argv[2].split(':')\<close>: \<open>IndexError\<close> without a third
  argument, \<open>ValueError\<close> when the split does not give exactly two pieces.\<close>

definition parse_hostport :: "string list \<Rightarrow> argv_error + string \<times> string" where
  "parse_hostport argv =
     (case drop 2 argv of
        [] \<Rightarrow> Inl IndexError
      | a # _ \<Rightarrow> (case py_split CHR '':'' a of [h, p] \<Rightarrow> Inr (h, p) | _ \<Rightarrow> Inl ValueError))"

definition host_warning :: string where
  "host_warning = ''WARNING! Incorrect host:port - using default settings.''"

definition runserver_effects :: "string list \<Rightarrow> cli_effect list" where
  "runserver_effects argv =
     (case parse_hostport argv of
        Inr (host, port) \<Rightarrow> [CRunApp host (if port = [] then ''8080'' else port)]
      | Inl _ \<Rightarrow> [CPrint host_warning, CRunApp ''0.0.0.0'' ''8080''])"

definition help_lines :: "string list" where
  "help_lines =
     [replicate 60 CHR ''='',
      ''Usage: '' @ path_tail ''/'' @ '' <command> <options>'',
      ''Available commands:'',
      '' * help - shows this message'',
      '' * runserver host:port - runs web server'',
      replicate 60 CHR ''='']"

definition djaio_run :: "'app djaio \<Rightarrow> cli_effect list" where
  "djaio_run d =
     (let sub = subcommand (d_argv d)
      in (if sub = ''runserver'' then runserver_effects (d_argv d) else [])
         @ (if sub = ''help'' then map CPrint help_lines else []))"

section \<open>Lemmas\<close>

lemma py_split_nonempty [simp]: "py_split c s \<noteq> []"
  by (induction s) (auto split: list.splits)

lemma py_split_no_sep: "c \<notin> set s \<Longrightarrow> py_split c s = [s]"
  by (induction s) auto

lemma py_split_sep: "c \<notin> set a \<Longrightarrow> py_split c (a @ c # b) = a # py_split c b"
proof (induction a)
  case (Cons x a)
  then show ?case by (cases "py_split c (a @ c # b)") auto
qed simp

lemma length_py_split: "length (py_split c s) = Suc (count_list s c)"
  by (induction s) (auto split: list.splits)

lemma subcommand_Cons2 [simp]: "subcommand (p # s # rest) = s"
  by (simp add: subcommand_def)

lemma path_tail_root: "path_tail ''/'' = []"
  by (simp add: path_tail_def)

lemma d_argv_init [simp]: "d_argv (djaio_init argv app f) = argv"
  by (simp add: djaio_init_def)

lemma runserver_effects_pair:
  "py_split CHR '':'' a = [h, p] \<Longrightarrow>
   runserver_effects (prog # s # a # rest) = [CRunApp h (if p = [] then ''8080'' else p)]"
  by (simp add: runserver_effects_def parse_hostport_def)

lemma runserver_effects_bad:
  "length (py_split CHR '':'' a) \<noteq> 2 \<Longrightarrow>
   runserver_effects (prog # s # a # rest) = [CPrint host_warning, CRunApp ''0.0.0.0'' ''8080'']"
  by (auto simp: runserver_effects_def parse_hostport_def split: list.splits)

text \<open>
  C23. \<open>runserver host:port\<close> with exactly one colon serves on that host and
  port; an empty port falls back to 8080 while the given host, even empty, is kept.
\<close>

theorem djaio_run_runserver:
  assumes "CHR '':'' \<notin> set h" and "CHR '':'' \<notin> set p"
  shows "djaio_run (djaio_init (prog # ''runserver'' # (h @ '':'' @ p) # rest) app f) =
           [CRunApp h (if p = [] then ''8080'' else p)]"
proof -
  have "py_split CHR '':'' (h @ '':'' @ p) = [h, p]"
    using assms by (simp add: py_split_sep py_split_no_sep)
  then show ?thesis
    by (simp add: djaio_run_def djaio_init_def runserver_effects_pair)
qed

text \<open>
  C24. \<open>runserver\<close> without an address, or with an address that has no colon or
  more than one, prints the warning and serves on \<open>0.0.0.0:8080\<close>.
\<close>

theorem djaio_run_runserver_default:
  assumes "args = [] \<or> count_list (hd args) CHR '':'' \<noteq> 1"
  shows "djaio_run (djaio_init (prog # ''runserver'' # args) app f) =
           [CPrint host_warning, CRunApp ''0.0.0.0'' ''8080'']"
proof (cases args)
  case Nil
  then show ?thesis
    by (simp add: djaio_run_def djaio_init_def runserver_effects_def parse_hostport_def)
next
  case (Cons a rest)
  with assms have "length (py_split CHR '':'' a) \<noteq> 2" by (simp add: length_py_split)
  with Cons show ?thesis
    by (simp add: djaio_run_def djaio_init_def runserver_effects_bad)
qed

text \<open>
  C25. With no subcommand or \<open>help\<close>, the usage text is printed; its program
  name is \<open>os.path.split('/')[1]\<close>, which is always empty, not the name the
  program was invoked with.
\<close>

theorem djaio_run_help:
  assumes "drop 1 argv = [] \<or> argv ! 1 = ''help''"
  shows "djaio_run (djaio_init argv app f) =
           map CPrint [replicate 60 CHR ''='', ''Usage:  <command> <options>'', ''Available commands:'',
                       '' * help - shows this message'', '' * runserver host:port - runs web server'',
                       replicate 60 CHR ''='']"
proof -
  have "subcommand argv = ''help''"
    using assms by (cases argv rule: remdups_adj.cases) (auto simp: subcommand_def)
  then show ?thesis
    by (simp add: djaio_run_def djaio_init_def help_lines_def path_tail_root)
qed

text \<open>
  C26. Any other subcommand does nothing: no output, no server, no usage text.
\<close>

theorem djaio_run_unknown:
  assumes "sub \<noteq> ''runserver''" and "sub \<noteq> ''help''"
  shows "djaio_run (djaio_init (prog # sub # rest) app f) = []"
  using assms by (simp add: djaio_run_def djaio_init_def)

end
