(* ===== verification/Remote.thy ===== *)
theory Remote
  imports Exceptions
begin

text \<open>
  The remote aggregation and the template view of \<open>djaio/core/views.py\<close>.
  \<open>RemoteContextMixin.get_remote_data\<close> fetches one URL: the client call is a
  parameter \<open>fetch\<close> giving, per URL, either the exception the client raised
  or the response's status and the outcome of \<open>resp.json()\<close> (\<open>None\<close> when it
  raises). \<open>gather_map\<close> (utils.py, not among the sources) is modelled from the
  spec: it runs the fetches and pairs each label with its value, failing as a
  whole when one fetch fails. \<open>asyncio.gather\<close> propagates the exception that is
  raised first in time; the model takes the first in list order, which is the
  same exception whenever, as in the theorems below, every failure is
  \<open>HTTPBadGateway\<close>. Python dicts are association lists in insertion order
  (\<open>dict_set\<close> is \<open>d[k] = v\<close>, \<open>dict_update\<close> is \<open>d.update(pairs)\<close>).
\<close>

record remote_resp =
  rr_status :: int           \<comment> \<open>\<open>resp.status\<close>\<close>
  rr_json :: "json option"   \<comment> \<open>\<open>await resp.json()\<close>, \<open>None\<close> when it raises\<close>

type_synonym fetcher = "string \<Rightarrow> exc + remote_resp"

definition http_bad_gateway :: exc where
  "http_bad_gateway = PyExc (Some 502) None ''Bad Gateway''"

text \<open>\<open>get_remote_data(url)\<close>: a status other than 200 and an unreadable body are
  \<open>HTTPBadGateway\<close>; a falsy JSON value is replaced by \<open>''\<close> (\<open>or ''\<close>).\<close>

definition get_remote_data :: "fetcher \<Rightarrow> string \<Rightarrow> exc + json" where
  "get_remote_data fetch url =
     (case fetch url of
        Inl e \<Rightarrow> Inl e
      | Inr resp \<Rightarrow>
          if rr_status resp \<noteq> 200 then Inl http_bad_gateway
          else (case rr_json resp of
                  None \<Rightarrow> Inl http_bad_gateway
                | Some j \<Rightarrow> Inr (if py_truthy j then j else JStr [])))"

fun gather_map :: "('l \<times> 'a) list \<Rightarrow> ('a \<Rightarrow> exc + 'b) \<Rightarrow> exc + ('l \<times> 'b) list" where
  "gather_map [] f = Inr []"
| "gather_map ((l, a) # xs) f =
     (case f a of
        Inl e \<Rightarrow> Inl e
      | Inr b \<Rightarrow> (case gather_map xs f of Inl e \<Rightarrow> Inl e | Inr ys \<Rightarrow> Inr ((l, b) # ys)))"

fun dict_set :: "('k \<times> 'v) list \<Rightarrow> 'k \<Rightarrow> 'v \<Rightarrow> ('k \<times> 'v) list" where
  "dict_set [] k v = [(k, v)]"
| "dict_set ((k', v') # d) k v = (if k' = k then (k, v) # d else (k', v') # dict_set d k v)"

definition dict_update :: "('k \<times> 'v) list \<Rightarrow> ('k \<times> 'v) list \<Rightarrow> ('k \<times> 'v) list" where
  "dict_update d kvs = fold (\<lambda>(k, v) d. dict_set d k v) kvs d"

text \<open>\<open>BaseContextmixin.get_context_data\<close>: an empty context.\<close>

definition base_context :: "(string \<times> json) list" where
  "base_context = []"

text \<open>\<open>RemoteContextMixin.get_context_data\<close>, for the view's \<open>data_url_map\<close>
  (the value \<open>get_data_url_map()\<close> returns).\<close>

definition remote_context :: "fetcher \<Rightarrow> (string \<times> string) list \<Rightarrow> exc + (string \<times> json) list" where
  "remote_context fetch url_map =
     (case gather_map url_map (get_remote_data fetch) of
        Inl e \<Rightarrow> Inl e
      | Inr pairs \<Rightarrow> Inr (dict_update base_context (dict_update [] pairs)))"

text \<open>\<open>TemplateView.render\<close>: the template name and the context handed to
  \<open>aiohttp_jinja2.render_template\<close>, or the exception \<open>get_context_data\<close> raised.\<close>

datatype page = Rendered "string option" "(string \<times> json) list"

definition template_render :: "string option \<Rightarrow> exc + (string \<times> json) list \<Rightarrow> exc + page" where
  "template_render template_name ctx =
     (case ctx of Inl e \<Rightarrow> Inl e | Inr c \<Rightarrow> Inr (Rendered template_name c))"

section \<open>Lemmas\<close>

lemma map_of_dict_set [simp]: "map_of (dict_set d k v) = (map_of d)(k \<mapsto> v)"
  by (induction d) (auto simp: fun_eq_iff)

lemma keys_dict_set [simp]: "map fst (dict_set d k v) = (if k \<in> set (map fst d) then map fst d else map fst d @ [k])"
  by (induction d) (auto, force)

lemma distinct_dict_set: "distinct (map fst d) \<Longrightarrow> distinct (map fst (dict_set d k v))"
  by simp

lemma map_of_dict_update: "map_of (dict_update d kvs) = map_of d ++ map_of (rev kvs)"
  by (induction kvs arbitrary: d) (auto simp: dict_update_def map_add_def fun_eq_iff split: option.splits)

lemma distinct_dict_update: "distinct (map fst d) \<Longrightarrow> distinct (map fst (dict_update d kvs))"
  by (induction kvs arbitrary: d) (auto simp: dict_update_def simp del: keys_dict_set intro: distinct_dict_set)

lemma map_of_rev_distinct: "distinct (map fst xs) \<Longrightarrow> map_of (rev xs) = map_of xs"
proof (induction xs)
  case (Cons x xs)
  have "fst x \<notin> dom (map_of xs)" using Cons.prems by (simp add: dom_map_of_conv_image_fst)
  then have "map_of [x] ++ map_of xs = map_of xs ++ map_of [x]"
    by (intro map_add_comm) (cases x, simp)
  with Cons show ?case by (cases x) simp
qed simp

lemma gather_map_ok:
  "\<forall>(l, a) \<in> set xs. f a = Inr (g a) \<Longrightarrow> gather_map xs f = Inr (map (\<lambda>(l, a). (l, g a)) xs)"
  by (induction xs f rule: gather_map.induct) auto

lemma gather_map_err:
  "\<forall>(l, a) \<in> set xs. f a = Inl e \<or> (\<exists>b. f a = Inr b) \<Longrightarrow> \<exists>(l, a) \<in> set xs. f a = Inl e \<Longrightarrow>
   gather_map xs f = Inl e"
proof (induction xs f rule: gather_map.induct)
  case (2 l a xs f)
  show ?case
  proof (cases "f a")
    case (Inr b)
    with "2.prems" have "\<exists>(l, a) \<in> set xs. f a = Inl e" by auto
    with "2.IH" "2.prems"(1) Inr show ?thesis by simp
  next
    case (Inl e')
    with "2.prems" show ?thesis by auto
  qed
qed simp

lemma get_remote_data_ok:
  "fetch u = Inr \<lparr>rr_status = 200, rr_json = Some j\<rparr> \<Longrightarrow>
   get_remote_data fetch u = Inr (if py_truthy j then j else JStr [])"
  by (simp add: get_remote_data_def)

text \<open>
  C27. When every URL of the map answers 200 with a JSON body, the context has
  one entry per label, without duplicates, and a label's value is the body
  fetched for the last URL given under that label (a falsy body read as
  \<open>''\<close>).
\<close>

theorem remote_context_ok:
  assumes "\<forall>(l, u) \<in> set m. fetch u = Inr \<lparr>rr_status = 200, rr_json = Some (js u)\<rparr>"
  shows "\<exists>ctx. remote_context fetch m = Inr ctx \<and> distinct (map fst ctx) \<and>
           map_of ctx = map_of (rev (map (\<lambda>(l, u). (l, if py_truthy (js u) then js u else JStr [])) m))"
proof -
  let ?g = "\<lambda>u. if py_truthy (js u) then js u else JStr []"
  have "\<forall>(l, u) \<in> set m. get_remote_data fetch u = Inr (?g u)"
    using assms by (auto simp: get_remote_data_ok)
  then have "gather_map m (get_remote_data fetch) = Inr (map (\<lambda>(l, u). (l, ?g u)) m)"
    by (rule gather_map_ok)
  then show ?thesis
    by (simp add: remote_context_def base_context_def map_of_dict_update distinct_dict_update
        map_of_rev_distinct del: map_of_append)
qed

text \<open>
  C28. When the remote calls all answer and one of them answers with a status
  other than 200, the whole aggregation fails with \<open>HTTPBadGateway\<close>; this
  includes the 2xx statuses 201 and 204, which the spec counts as success.
\<close>

theorem remote_context_bad_gateway:
  assumes "\<forall>(l, u) \<in> set m. \<exists>r. fetch u = Inr r"
    and "(l0, u0) \<in> set m" and "fetch u0 = Inr r0" and "rr_status r0 \<noteq> 200"
  shows "remote_context fetch m = Inl http_bad_gateway"
proof -
  have "\<forall>(l, u) \<in> set m. get_remote_data fetch u = Inl http_bad_gateway \<or>
          (\<exists>b. get_remote_data fetch u = Inr b)"
    using assms(1) by (fastforce simp: get_remote_data_def split: option.splits)
  moreover have "get_remote_data fetch u0 = Inl http_bad_gateway"
    using assms(3,4) by (simp add: get_remote_data_def)
  then have "\<exists>(l, u) \<in> set m. get_remote_data fetch u = Inl http_bad_gateway"
    using assms(2) by blast
  ultimately show ?thesis
    by (simp add: remote_context_def gather_map_err)
qed

text \<open>
  C29. A remote call that answers 200 with a falsy JSON body (\<open>[]\<close>, \<open>{}\<close>,
  \<open>0\<close>, \<open>false\<close>, \<open>null\<close>) contributes the empty string \<open>''\<close>, not the body.
\<close>

theorem get_remote_data_falsy:
  assumes "fetch u = Inr \<lparr>rr_status = 200, rr_json = Some j\<rparr>" and "\<not> py_truthy j"
  shows "get_remote_data fetch u = Inr (JStr [])"
  using assms by (simp add: get_remote_data_ok)

end
