(* ===== verification/Concurrency.thy ===== *)
theory Concurrency
  imports JsonView
begin

text \<open>
  Requests served concurrently by one event loop. A view's method instances are
  class attributes (views.py, lines 61-64), so every request of a view class that
  uses the same verb runs \<open>_process_request\<close> on the same \<open>BaseMethod\<close> object.
  A task gives up the loop only where it awaits something that suspends; here
  that is the I/O inside \<open>execute\<close>: an \<open>execute\<close> is a segment before its
  suspension (\<open>ae_start\<close>, which may read the instance and keeps its local
  variables \<open>'k\<close>) and a segment after it (\<open>ae_resume\<close>). \<open>from_http\<close> of a
  GET or DELETE request and hooks that do no I/O run without suspending, so a
  task runs in two atomic segments: \<open>task_start\<close> (from \<open>from_http\<close> to the
  suspension in \<open>execute\<close>, or to the response if something raised first) and
  \<open>task_resume\<close> (the rest of \<open>get_output\<close>, \<open>call_post_hooks\<close> and the
  synchronous end of \<open>_process_request\<close>). \<open>sys_step\<close> runs one segment of any
  task on the shared instance.
\<close>

record ('obj, 'k) async_exec =
  ae_start :: "'obj mstate \<Rightarrow> 'obj mstate \<times> 'k"
  ae_resume :: "'k \<Rightarrow> 'obj mstate \<Rightarrow> 'obj mstate \<times> (exc + 'obj list)"

text \<open>The \<open>execute\<close> the two segments make up when nothing runs in between.\<close>

definition seq_exec :: "('obj, 'k) async_exec \<Rightarrow> 'obj mstate \<Rightarrow> 'obj mstate \<times> (exc + 'obj list)" where
  "seq_exec ae st = (case ae_start ae st of (st', k) \<Rightarrow> ae_resume ae k st')"

text \<open>\<open>get_output\<close> after \<open>self.execute()\<close> has returned (methods.py, lines 92-102).\<close>

definition output_after ::
  "'obj method_impl \<Rightarrow> 'obj mstate \<Rightarrow> exc + 'obj list \<Rightarrow> 'obj mstate \<times> (exc + envelope)" where
  "output_after impl st1 r =
     (case r of
        Inl e \<Rightarrow> (st1, Inl e)
      | Inr objs \<Rightarrow>
          (let st2 = st1\<lparr>m_result := Some objs\<rparr>
           in (case map_exc (output_model impl) objs of
                 Inl e \<Rightarrow> (st2, Inl e)
               | Inr prims \<Rightarrow>
                   (let out = \<lparr>env_result = Some prims, env_success = (m_errors st2 = []),
                               env_errors = (if m_errors st2 \<noteq> [] then ErrsAlias else NoErrs),
                               env_pagination = None\<rparr>;
                        (st3, pg) = get_pagination st2;
                        out' = out\<lparr>env_pagination := pg\<rparr>
                    in (st3\<lparr>m_output := Some out'\<rparr>, Inr out')))))"

text \<open>The synchronous end of \<open>_process_request\<close> (views.py, lines 95-124), from
  what the awaited calls returned or raised.\<close>

definition json_finish ::
  "int \<Rightarrow> 'obj mstate \<Rightarrow> envelope option \<Rightarrow> exc option \<Rightarrow> 'obj outcome" where
  "json_finish dflt st out e =
     (let resp = (case out of None \<Rightarrow> initial_response | Some r \<Rightarrow> r)
      in (case handle_exc dflt st resp e of
            (st2, resp', code, log) \<Rightarrow> recheck_status dflt st2 resp' code log))"

datatype 'k task =
    Ready                                          \<comment> \<open>not started\<close>
  | Waiting 'k                                     \<comment> \<open>suspended inside \<open>execute\<close>\<close>
  | Done "exc + http_response" "log_event list"   \<comment> \<open>response returned, and what was logged\<close>

definition finish_task :: "'obj outcome \<Rightarrow> 'obj mstate \<times> 'k task" where
  "finish_task oc = (o_state oc, Done (o_result oc) (o_log oc))"

definition task_start ::
  "'obj method_impl \<Rightarrow> ('obj, 'k) async_exec \<Rightarrow> int \<Rightarrow> request \<Rightarrow> 'obj mstate \<Rightarrow> 'obj mstate \<times> 'k task" where
  "task_start impl ae dflt req st0 =
     (case from_http impl req st0 of
        (st1, Inl e) \<Rightarrow> finish_task (json_finish dflt st1 None (Some e))
      | (st1, Inr _) \<Rightarrow>
          (case run_pre_hooks impl st1 of
             (st2, Some e) \<Rightarrow> finish_task (json_finish dflt st2 None (Some e))
           | (st2, None) \<Rightarrow> (case ae_start ae st2 of (st3, k) \<Rightarrow> (st3, Waiting k))))"

definition task_resume ::
  "'obj method_impl \<Rightarrow> ('obj, 'k) async_exec \<Rightarrow> int \<Rightarrow> 'k \<Rightarrow> 'obj mstate \<Rightarrow> 'obj mstate \<times> 'k task" where
  "task_resume impl ae dflt k st0 =
     (case ae_resume ae k st0 of
        (st1, r) \<Rightarrow>
          (case output_after impl st1 r of
             (st2, Inl e) \<Rightarrow> finish_task (json_finish dflt st2 None (Some e))
           | (st2, Inr out) \<Rightarrow>
               (case run_post_hooks impl st2 out of
                  (st3, e) \<Rightarrow> finish_task (json_finish dflt st3 (Some out) e))))"

record ('obj, 'k) sched =
  shared :: "'obj mstate"   \<comment> \<open>the attributes of the one method instance\<close>
  tasks :: "'k task list"    \<comment> \<open>task \<open>i\<close> serves request \<open>i\<close>\<close>

inductive sys_step ::
  "'obj method_impl \<Rightarrow> ('obj, 'k) async_exec \<Rightarrow> int \<Rightarrow> request list \<Rightarrow>
   ('obj, 'k) sched \<Rightarrow> ('obj, 'k) sched \<Rightarrow> bool"
  for impl ae dflt reqs where
  start: "i < length (tasks c) \<Longrightarrow> tasks c ! i = Ready \<Longrightarrow>
          task_start impl ae dflt (reqs ! i) (shared c) = (st', t) \<Longrightarrow>
          sys_step impl ae dflt reqs c \<lparr>shared = st', tasks = (tasks c)[i := t]\<rparr>"
| resume: "i < length (tasks c) \<Longrightarrow> tasks c ! i = Waiting k \<Longrightarrow>
          task_resume impl ae dflt k (shared c) = (st', t) \<Longrightarrow>
          sys_step impl ae dflt reqs c \<lparr>shared = st', tasks = (tasks c)[i := t]\<rparr>"

text \<open>The pagination cursors of the instance, and those a request resolves.\<close>

definition cursor_pair :: "'obj mstate \<Rightarrow> pval option \<times> pval option" where
  "cursor_pair st = (m_limit st, m_offset st)"

definition cursors_of :: "'obj method_impl \<Rightarrow> request \<Rightarrow> pval option \<times> pval option" where
  "cursors_of impl req = (Some (fst (resolve_cursors impl req)), Some (fst (snd (resolve_cursors impl req))))"

text \<open>The application's own code (hooks and the two halves of \<open>execute\<close>) leaves
  \<open>limit\<close> and \<open>offset\<close> alone.\<close>

definition keeps_cursors :: "'obj method_impl \<Rightarrow> ('obj, 'k) async_exec \<Rightarrow> bool" where
  "keeps_cursors impl ae =
     ((\<forall>s. cursor_pair (fst (ae_start ae s)) = cursor_pair s) \<and>
      (\<forall>k s. cursor_pair (fst (ae_resume ae k s)) = cursor_pair s) \<and>
      (case call_pre_hooks impl of None \<Rightarrow> True | Some h \<Rightarrow> \<forall>s. cursor_pair (fst (h s)) = cursor_pair s) \<and>
      (case call_post_hooks impl of None \<Rightarrow> True | Some h \<Rightarrow> \<forall>s out. cursor_pair (fst (h s out)) = cursor_pair s))"

section \<open>Lemmas\<close>

inductive_cases sys_stepE: "sys_step impl ae dflt reqs c c'"

lemma task_start_waiting:
  assumes "from_http impl req st = (st1, Inr u)" and "call_pre_hooks impl = Some (\<lambda>s. (s, None))"
    and "ae_start ae st1 = (st2, k)"
  shows "task_start impl ae dflt req st = (st2, Waiting k)"
  using assms by (simp add: task_start_def run_pre_hooks_def)

text \<open>
  C30. Two requests on one method instance: when request A suspends inside
  \<open>execute\<close> and request B's \<open>from_http\<close> runs before A resumes, A is answered
  with its own data but with the \<open>limit\<close> and \<open>offset\<close> resolved from B's
  request. The spec requires that the method's state is never shared between
  requests.
\<close>

theorem sys_step_cursor_leak:
  assumes pre: "call_pre_hooks impl = Some (\<lambda>s. (s, None))"
    and post: "call_post_hooks impl = Some (\<lambda>s out. (s, None))"
    and a1: "from_http impl reqA st = (s1, Inr u1)" and a2: "ae_start ae s1 = (s1, kA)"
    and b1: "from_http impl reqB s1 = (s2, Inr u2)" and b2: "ae_start ae s2 = (s2, kB)"
    and a3: "ae_resume ae kA s2 = (s2\<lparr>m_total := Some n\<rparr>, Inr objs)" and "n \<noteq> 0"
    and ser: "map_exc (output_model impl) objs = Inr prims"
    and web: "is_web_request reqB"
  shows "\<exists>c'. (sys_step impl ae dflt [reqA, reqB])\<^sup>*\<^sup>* \<lparr>shared = st, tasks = [Ready, Ready]\<rparr> c' \<and>
           tasks c' ! 0 =
             Done (Inr \<lparr>status = dflt,
                        body = render_envelope []
                          \<lparr>env_result = Some prims, env_success = True, env_errors = NoErrs,
                           env_pagination = Some \<lparr>pg_total = n, pg_limit = Some (fst (resolve_cursors impl reqB)),
                                                  pg_offset = Some (fst (snd (resolve_cursors impl reqB)))\<rparr>\<rparr>,
                        headers = []\<rparr>) []"
proof -
  let ?R = "sys_step impl ae dflt [reqA, reqB]"
  have err: "m_errors s2 = []" using from_http_errors [of impl reqB s1] b1 by simp
  have cur: "m_limit s2 = Some (fst (resolve_cursors impl reqB))"
            "m_offset s2 = Some (fst (snd (resolve_cursors impl reqB)))"
    using from_http_cursor_state [OF web, of impl s1] b1 by simp_all
  have "?R \<lparr>shared = st, tasks = [Ready, Ready]\<rparr> \<lparr>shared = s1, tasks = [Waiting kA, Ready]\<rparr>"
    using sys_step.start [where impl = impl and ae = ae and dflt = dflt and reqs = "[reqA, reqB]" and i = 0
        and c = "\<lparr>shared = st, tasks = [Ready, Ready]\<rparr>"] task_start_waiting [OF a1 pre a2]
    by simp
  moreover have "?R \<lparr>shared = s1, tasks = [Waiting kA, Ready]\<rparr> \<lparr>shared = s2, tasks = [Waiting kA, Waiting kB]\<rparr>"
    using sys_step.start [where impl = impl and ae = ae and dflt = dflt and reqs = "[reqA, reqB]" and i = 1
        and c = "\<lparr>shared = s1, tasks = [Waiting kA, Ready]\<rparr>"] task_start_waiting [OF b1 pre b2]
    by simp
  moreover obtain s3 t where rA: "task_resume impl ae dflt kA s2 = (s3, t)" by fastforce
  then have "?R \<lparr>shared = s2, tasks = [Waiting kA, Waiting kB]\<rparr> \<lparr>shared = s3, tasks = [t, Waiting kB]\<rparr>"
    using sys_step.resume [where impl = impl and ae = ae and dflt = dflt and reqs = "[reqA, reqB]" and i = 0
        and c = "\<lparr>shared = s2, tasks = [Waiting kA, Waiting kB]\<rparr>"] by simp
  ultimately have "?R\<^sup>*\<^sup>* \<lparr>shared = st, tasks = [Ready, Ready]\<rparr> \<lparr>shared = s3, tasks = [t, Waiting kB]\<rparr>"
    by (meson rtranclp.rtrancl_into_rtrancl rtranclp.rtrancl_refl)
  moreover have "t = Done (Inr \<lparr>status = dflt,
                        body = render_envelope []
                          \<lparr>env_result = Some prims, env_success = True, env_errors = NoErrs,
                           env_pagination = Some \<lparr>pg_total = n, pg_limit = Some (fst (resolve_cursors impl reqB)),
                                                  pg_offset = Some (fst (snd (resolve_cursors impl reqB)))\<rparr>\<rparr>,
                        headers = []\<rparr>) []"
    using rA a3 ser err cur \<open>n \<noteq> 0\<close>
    by (simp add: task_resume_def output_after_def run_post_hooks_def post get_pagination_def Let_def
        finish_task_def json_finish_def recheck_finish finish_json_def render_envelope_def)
  ultimately show ?thesis by auto
qed

lemma task_start_not_ready: "snd (task_start impl ae dflt req st) \<noteq> Ready"
  by (auto simp: task_start_def finish_task_def split: prod.splits sum.splits option.splits)

lemma task_resume_not_ready: "snd (task_resume impl ae dflt k st) \<noteq> Ready"
  by (auto simp: task_resume_def finish_task_def split: prod.splits sum.splits)

lemma handle_exc_cursors: "cursor_pair (fst (handle_exc dflt st resp e)) = cursor_pair st"
proof (cases e)
  case (Some x)
  then show ?thesis
    by (cases x) (auto simp: cursor_pair_def attach_error_def Let_def split: prod.splits option.splits if_splits)
qed simp

lemma recheck_status_state: "o_state (recheck_status dflt st resp code log) = st"
  by (simp add: recheck_status_def finish_json_def Let_def split: option.splits list.splits json.splits)

lemma json_finish_cursors: "cursor_pair (o_state (json_finish dflt st out e)) = cursor_pair st"
  by (simp add: json_finish_def split_def Let_def recheck_status_state handle_exc_cursors)

lemma get_pagination_cursors: "cursor_pair (fst (get_pagination st)) = cursor_pair st"
  by (simp add: get_pagination_def cursor_pair_def Let_def split: option.splits)

lemma cursor_pair_upd [simp]:
  "cursor_pair (s\<lparr>m_result := x\<rparr>) = cursor_pair s" "cursor_pair (s\<lparr>m_output := y\<rparr>) = cursor_pair s"
  by (simp_all add: cursor_pair_def)

lemma output_after_cursors: "cursor_pair (fst (output_after impl st r)) = cursor_pair st"
  by (simp add: output_after_def Let_def split_def get_pagination_cursors split: sum.splits)

lemma run_pre_hooks_cursors:
  "keeps_cursors impl ae \<Longrightarrow> cursor_pair (fst (run_pre_hooks impl st)) = cursor_pair st"
  by (auto simp: keeps_cursors_def run_pre_hooks_def split: option.splits)

lemma run_post_hooks_cursors:
  "keeps_cursors impl ae \<Longrightarrow> cursor_pair (fst (run_post_hooks impl st out)) = cursor_pair st"
  by (auto simp: keeps_cursors_def run_post_hooks_def split: option.splits)

lemma task_start_cursors:
  assumes "keeps_cursors impl ae"
  shows "cursor_pair (fst (task_start impl ae dflt req st)) =
           (if is_web_request req then cursors_of impl req else cursor_pair st)"
proof -
  obtain st1 r1 where h: "from_http impl req st = (st1, r1)" by fastforce
  have c1: "cursor_pair st1 = (if is_web_request req then cursors_of impl req else cursor_pair st)"
    using h from_http_cursor_state [of req impl st] from_http_not_request [of req impl st]
    by (auto simp: cursor_pair_def cursors_of_def)
  obtain st2 e2 where p: "run_pre_hooks impl st1 = (st2, e2)" by fastforce
  have c2: "cursor_pair st2 = cursor_pair st1"
    using run_pre_hooks_cursors [OF assms, of st1] p by simp
  have "cursor_pair (fst (ae_start ae st2)) = cursor_pair st2"
    using assms by (simp add: keeps_cursors_def)
  with h p c1 c2 show ?thesis
    by (auto simp: task_start_def finish_task_def json_finish_cursors split: sum.splits option.splits prod.splits)
qed

lemma task_resume_cursors:
  assumes "keeps_cursors impl ae"
  shows "cursor_pair (fst (task_resume impl ae dflt k st)) = cursor_pair st"
proof -
  obtain st1 r where r: "ae_resume ae k st = (st1, r)" by fastforce
  have c1: "cursor_pair st1 = cursor_pair st" using assms r unfolding keeps_cursors_def by (metis fst_conv)
  obtain st2 o2 where oa: "output_after impl st1 r = (st2, o2)" by fastforce
  have c2: "cursor_pair st2 = cursor_pair st1" using output_after_cursors [of impl st1 r] oa by simp
  show ?thesis
  proof (cases o2)
    case Inl
    with r oa c1 c2 show ?thesis
      by (simp add: task_resume_def finish_task_def json_finish_cursors)
  next
    case (Inr out)
    obtain st3 e3 where ph: "run_post_hooks impl st2 out = (st3, e3)" by fastforce
    have "cursor_pair st3 = cursor_pair st2"
      using run_post_hooks_cursors [OF assms, of st2 out] ph by simp
    with r oa ph Inr c1 c2 show ?thesis
      by (simp add: task_resume_def finish_task_def json_finish_cursors)
  qed
qed

lemma sys_step_cursors:
  assumes "keeps_cursors impl ae" and "sys_step impl ae dflt reqs c c'"
    and "cursor_pair (shared c) = cursor_pair st0 \<or>
         (\<exists>i < length (tasks c). tasks c ! i \<noteq> Ready \<and> is_web_request (reqs ! i) \<and>
            cursor_pair (shared c) = cursors_of impl (reqs ! i))"
  shows "cursor_pair (shared c') = cursor_pair st0 \<or>
         (\<exists>i < length (tasks c'). tasks c' ! i \<noteq> Ready \<and> is_web_request (reqs ! i) \<and>
            cursor_pair (shared c') = cursors_of impl (reqs ! i))"
  using assms(2,3)
proof (induction rule: sys_step.induct)
  case (start i c st' t)
  have nr: "t \<noteq> Ready" using task_start_not_ready [of impl ae dflt "reqs ! i" "shared c"] start.hyps(3) by simp
  have cp: "cursor_pair st' =
              (if is_web_request (reqs ! i) then cursors_of impl (reqs ! i) else cursor_pair (shared c))"
    using task_start_cursors [OF assms(1), of dflt "reqs ! i" "shared c"] start.hyps(3) by simp
  show ?case
  proof (cases "is_web_request (reqs ! i)")
    case True
    with start.hyps(1) nr cp show ?thesis by auto
  next
    case False
    with cp start.prems start.hyps(1,2) show ?thesis
      by (auto simp: nth_list_update)
  qed
next
  case (resume i c k st' t)
  have nr: "t \<noteq> Ready" using task_resume_not_ready [of impl ae dflt k "shared c"] resume.hyps(3) by simp
  have cp: "cursor_pair st' = cursor_pair (shared c)"
    using task_resume_cursors [OF assms(1), of dflt k "shared c"] resume.hyps(3) by simp
  from resume.prems cp nr show ?case
    by (auto simp: nth_list_update) (metis nth_list_update_eq nth_list_update_neq)
qed

text \<open>
  C32. Invariant of every interleaving: the \<open>limit\<close> and \<open>offset\<close> on the shared
  method instance are always the pair one started request resolved (or the
  initial pair before any web request started). An interleaving can answer a
  request with another request's cursors (C30) but never with a mix of two
  requests' cursors, because \<open>from_http\<close> stores both cursors before validating
  and nothing after it in \<open>_process_request\<close> writes them.
\<close>

theorem sys_step_cursors_untorn:
  assumes "keeps_cursors impl ae"
    and "(sys_step impl ae dflt reqs)\<^sup>*\<^sup>* \<lparr>shared = st, tasks = replicate n Ready\<rparr> c"
  shows "cursor_pair (shared c) = cursor_pair st \<or>
         (\<exists>i < length (tasks c). tasks c ! i \<noteq> Ready \<and> is_web_request (reqs ! i) \<and>
            cursor_pair (shared c) = cursors_of impl (reqs ! i))"
  using assms(2)
proof (induction rule: rtranclp_induct)
  case base
  show ?case by simp
next
  case (step c c')
  then show ?case using sys_step_cursors [OF assms(1)] by blast
qed

end
