(* ===== verification/Spec2Isabelle.thy ===== *)
theory Spec2Isabelle
  imports MobileView Cli Remote Concurrency
begin

text \<open>
  \<^bold>\<open>A verification development of djaio\<close> (Sberned/djaio): the request pipeline
  between aiohttp and an application's business methods.

  \<^bold>\<open>The program.\<close> \<open>djaio/core/methods.py\<close> defines \<open>BaseMethod\<close>: \<open>from_http\<close>
  resolves the pagination cursors and validates the request's input through a
  schematics model, \<open>execute\<close> is the business operation, \<open>get_pagination\<close> and
  \<open>get_output\<close> build the output dict. \<open>djaio/core/views.py\<close> defines
  \<open>JsonView\<close>, which binds a method instance to each verb and drives it
  (\<open>from_http\<close>, \<open>call_pre_hooks\<close>, \<open>get_output\<close>, \<open>call_post_hooks\<close>), turns
  exceptions into error records, re-derives the status from the first error and,
  for POST and PUT, adds a \<open>Location\<close> header; \<open>MobileApiJsonView\<close> is the same
  lifecycle with a \<open>{code, data, error, errors}\<close> response and a fixed status;
  \<open>RemoteContextMixin\<close> and \<open>TemplateView\<close> fetch remote JSON and render
  templates. \<open>djaio/__init__.py\<close> is the command line. The modules
  \<open>exceptions\<close>, \<open>models\<close>, \<open>utils\<close> and \<open>server\<close> are not among the sources.

  \<^bold>\<open>Theories.\<close>
  \<^item> \<open>Prelude\<close>: JSON values (\<open>json\<close>), Python truthiness (\<open>py_truthy\<close>), aiohttp
    multi-dictionaries as association lists with \<open>md_pop\<close> (\<open>MultiDict.pop\<close>).
  \<^item> \<open>Exceptions\<close>: the exceptions the views distinguish, \<open>ApiExc\<close> for a
    \<open>BaseApiException\<close> (from the spec: \<open>to_dict\<close> is \<open>api_to_dict\<close>,
    \<open>BadRequestException\<close> is \<open>bad_request_exc\<close>) and \<open>PyExc\<close> for any other,
    keeping exactly the attributes the views read; the logger calls as \<open>log_event\<close>.
  \<^item> \<open>Validation\<close>: the outcome of a schematics model (\<open>schema_result\<close>) and the
    error-normalisation loop of \<open>from_http\<close> (\<open>collect_errors\<close>).
  \<^item> \<open>Utils\<close>: \<open>get_int_or_none\<close>, from the spec, with decimal printing
    (\<open>show_int\<close>) and the lemma that parsing reads it back.
  \<^item> \<open>Method\<close>: the request (\<open>request\<close>), the instance attributes (\<open>mstate\<close>),
    the overridable class members (\<open>method_impl\<close>, with \<open>base_method\<close> the class as
    written), \<open>resolve_cursors\<close>, \<open>from_http\<close>, \<open>get_pagination\<close>,
    \<open>get_output\<close> and the hook calls. Each \<open>async def\<close> maps the instance's state to
    its new state and either the exception raised (\<open>Inl\<close>) or the result.
  \<^item> \<open>JsonView\<close>: \<open>run_method\<close> (the lifecycle), \<open>handle_exc\<close> (the two
    \<open>except\<close> clauses), \<open>recheck_status\<close>, \<open>json_process\<close>
    (\<open>_process_request\<close>), \<open>reverse_url\<close>, \<open>set_location\<close> and the verb dispatch
    \<open>view_handle\<close>. The list object \<open>method.errors\<close> may be shared with the
    response dict; \<open>errslot\<close> records whether it is, so that appends after the
    sharing show in the rendered body exactly as in Python.
  \<^item> \<open>MobileView\<close>: \<open>set_errors\<close>, \<open>mobile_process\<close>; the dispatch is
    \<open>view_handle\<close> again, since the class inherits it.
  \<^item> \<open>Cli\<close>: \<open>Djaio.__init__\<close> (\<open>djaio_init\<close>) and \<open>Djaio.run\<close>
    (\<open>djaio_run\<close>) as the ordered list of its effects, with Python's
    \<open>str.split\<close> (\<open>py_split\<close>) and \<open>os.path.split(p)[1]\<close> (\<open>path_tail\<close>).
  \<^item> \<open>Remote\<close>: \<open>get_remote_data\<close>, \<open>gather_map\<close> (from the spec) and the
    context merge of \<open>RemoteContextMixin.get_context_data\<close>
    (\<open>remote_context\<close>), with the client call as a parameter \<open>fetch\<close>;
    \<open>TemplateView.render\<close> as the template name and context it hands to jinja.
  \<^item> \<open>Concurrency\<close>: concurrent requests on the one method instance a view
    class keeps per verb. \<open>_process_request\<close> is split at the I/O suspension
    inside \<open>execute\<close> (\<open>async_exec\<close>: \<open>ae_start\<close>, \<open>ae_resume\<close>) into
    \<open>task_start\<close> and \<open>task_resume\<close>; \<open>sys_step\<close> is the inductive step
    relation that runs one segment of any task on the shared state;
    \<open>cursor_pair\<close>, \<open>cursors_of\<close> and \<open>keeps_cursors\<close> state the invariant of
    the shared cursors.
  \<^item> this theory: request fixtures and the witnesses that instantiate the claims.

  \<^bold>\<open>Modelling choices.\<close> Values on the wire are \<open>json\<close>; dicts keep insertion order
  except that the standard envelope is rendered with its keys in the order
  result, success, errors, pagination (Python puts \<open>errors\<close> after
  \<open>pagination\<close> when \<open>call_post_hooks\<close> raises after the output dict was built;
  no property depends on that order). Header names are compared exactly (the
  case-insensitive \<open>CIMultiDict\<close> is not modelled). A method's hooks may change the
  instance's state but not the response dict. A \<open>code\<close> in an error record that is
  not an integer makes \<open>json_response\<close> fail (Python would accept a numeric
  string). Nothing in the pipeline loops beyond finite lists, so every definition is
  a total \<open>fun\<close> or \<open>definition\<close> and needs no fuel. The view's method instances
  are class attributes, created once: the state a handler receives is whatever the
  previous request on that instance left, which the model keeps explicit.
  \<open>raise web.HTTPMethodNotAllowed\<close> without arguments is modelled as the
  \<open>TypeError\<close> it raises (\<open>bare_method_not_allowed\<close>); \<open>web.View\<close>'s own
  405 for a verb the class has no handler for is \<open>http_method_not_allowed\<close>.
  \<open>djaio_init\<close> takes the value \<open>custom_init\<close> returns as the application,
  where Python relies on \<open>custom_init\<close> mutating it in place.

  \<^bold>\<open>Properties.\<close> Standard view (\<open>JsonView\<close>): the success path with its
  envelope and pagination (C1); a validation failure answered with exactly one
  \<open>BadRequest\<close> record and no log (C2); an unimplemented \<open>execute\<close> (C4) and a
  method without \<open>call_pre_hooks\<close>, as \<open>BaseMethod\<close> is (C5), answered with a
  generic 500; totality, the handler renders a response whenever the method keeps
  its first error record a dict (C6); errors appended by \<open>execute\<close> decide the
  status (C12); a string error record crashes the status re-check (C13); the
  message of a \<open>PyExc\<close> leaks into the body through the shared error list (C14); a
  fault in \<open>call_post_hooks\<close> after the envelope is built yields a body that is
  both successful and erroneous (C15); a standard verb with no bound method
  fails with \<open>TypeError\<close>, answered 500 instead of 405, without touching the
  method (C16); the
  \<open>Location\<close> header for POST and PUT (C17); a shared method instance carries
  \<open>total\<close> from one request into the next (C22). Validation: the error
  normalisation reports every conversion error, nested ones included, and drops
  every other (C3). Method: cursor resolution, header before query before
  default (C7); a header cursor leaves the query parameter to the input model
  (C8); offset 0 falls through to the default (C9); the form fallback of POST/PUT
  (C10); pagination in the output dict (C11); a decimal query cursor read back
  exactly (C21). Mobile view: the status is always the flavour's default (C18),
  errors appended by \<open>execute\<close> are not reported (C19), an API fault gives its
  code and message (C20). Command line: \<open>runserver host:port\<close> (C23), its
  default on a malformed address (C24), the usage text and its empty program name
  (C25), an unknown subcommand does nothing (C26). Remote aggregation: an all-200
  aggregation gives one context entry per label, the last URL of a label winning
  (C27); any status other than 200, 201 and 204 included, fails the whole
  aggregation with \<open>HTTPBadGateway\<close> (C28); a falsy JSON body becomes \<open>''\<close>
  (C29). A POST whose \<open>Location\<close> URL cannot be built escapes \<open>post()\<close>
  with an exception after its method has run (C31). Concurrency: when request B's
  \<open>from_http\<close> runs while request A is suspended inside \<open>execute\<close>, A is
  answered with B's \<open>limit\<close> and \<open>offset\<close> (C30); in every interleaving the
  shared cursors are the pair one started request resolved, never a mix of two
  requests' cursors, by rule induction over \<open>sys_step\<close> (C32).

  \<^bold>\<open>Suspension points.\<close> The concurrency model lets a task yield only inside
  \<open>execute\<close>. \<open>from_http\<close> of a GET or DELETE request and hooks that do no I/O
  never suspend, so this is exact for them. The suspension at
  \<open>await request.json()\<close> inside \<open>from_http\<close> for POST/PUT is not split: a
  schedule that yields there would only add interleavings, so the leak of C30
  remains, but C32 is shown only for the segments modelled. Each segment is a
  total function of the model, the business \<open>execute\<close> halves included, so no
  fuel is needed.

  \<^bold>\<open>Plan.\<close> The request lifecycle as an \<open>inductive\<close> step relation refined by
  \<open>run_method\<close>; the suspension inside \<open>from_http\<close>.

  \<^bold>\<open>Not modelled.\<close> The jinja rendering of \<open>TemplateView\<close> and aiohttp's
  transport, HTTP client and routing are libraries the sources only call.
  \<open>init_app\<close> (server.py) and \<open>NullInput\<close>/\<open>NullOutput\<close> (models.py) are
  not among the sources and the spec does not describe them, so the application
  is a parameter of \<open>djaio_init\<close> and the models are parameters of
  \<open>method_impl\<close>. The schematics library is represented only by the outcome
  of a model (\<open>schema_result\<close>). The logging backend is left out; only which
  logger calls are made is recorded.
\<close>

section \<open>Fixtures\<close>

definition demo_settings :: settings where
  "demo_settings = \<lparr>LIMIT = 20, OFFSET = 0\<rparr>"

definition demo_router :: "string \<Rightarrow> (json \<Rightarrow> string option) option" where
  "demo_router n =
     (if n = ''item'' then Some (\<lambda>p. case p of JInt i \<Rightarrow> Some (''/items/'' @ show_int i) | _ \<Rightarrow> None)
      else None)"

text \<open>\<open>GET /items?offset=10\<close> with no cursor headers.\<close>

definition demo_get :: request where
  "demo_get =
     \<lparr>is_web_request = True, req_method = GET, req_headers = [], req_GET = [(''offset'', ''10'')],
      req_json = None, req_post = [], app_settings = demo_settings,
      app_urls = [(''ItemView'', ''item'')], app_router = demo_router\<rparr>"

text \<open>A method accepting any input, returning two objects and a total of 2, with no-op hooks.\<close>

definition demo_impl :: "json method_impl" where
  "demo_impl =
     \<lparr>input_model = SOk, output_model = Inr, process_request = id,
      execute = (\<lambda>s. (s\<lparr>m_total := Some 2\<rparr>, Inr [JInt 1, JInt 2])),
      call_pre_hooks = Some (\<lambda>s. (s, None)), call_post_hooks = Some (\<lambda>s out. (s, None))\<rparr>"

text \<open>The spec's example of two field failures reported together.\<close>

definition demo_field_errors :: "(string \<times> err_entry) list" where
  "demo_field_errors =
     [(''name'', ELeaf (LConv [''This field is required.''])),
      (''age'', ELeaf (LConv [''Value is not int.'']))]"

definition demo_strict_impl :: "json method_impl" where
  "demo_strict_impl = demo_impl\<lparr>input_model := (\<lambda>_. SDataErr demo_field_errors)\<rparr>"

text \<open>The state \<open>from_http\<close> leaves for \<open>demo_get\<close> on a fresh instance.\<close>

definition demo_st1 :: "json mstate" where
  "demo_st1 =
     \<lparr>m_result = Some [], m_total = None, m_errors = [], m_params = Some (JObj []),
      m_output = None, m_pagination = None, m_limit = Some (PInt 20), m_offset = Some (PInt 10),
      m_settings = Some demo_settings\<rparr>"

definition demo_err_impl :: "json method_impl" where
  "demo_err_impl =
     demo_impl\<lparr>execute := (\<lambda>s. (s\<lparr>m_errors := m_errors s @ [api_to_dict 404 (JStr ''missing'')]\<rparr>, Inr []))\<rparr>"

definition demo_hdr_get :: request where
  "demo_hdr_get =
     demo_get\<lparr>req_headers := [(''X-Limit'', ''5''), (''X-Offset'', ''7'')],
              req_GET := [(''limit'', ''50''), (''offset'', ''70'')]\<rparr>"

definition demo_zero_get :: request where
  "demo_zero_get = demo_get\<lparr>req_GET := [(''offset'', ''0'')], app_settings := \<lparr>LIMIT = 20, OFFSET = 5\<rparr>\<rparr>"

definition demo_form_post :: request where
  "demo_form_post = demo_get\<lparr>req_method := POST, req_GET := [], req_json := None, req_post := [(''name'', ''x'')]\<rparr>"

definition demo_str_impl :: "json method_impl" where
  "demo_str_impl = demo_impl\<lparr>execute := (\<lambda>s. (s\<lparr>m_errors := m_errors s @ [JStr ''stale cache'']\<rparr>, Inr []))\<rparr>"

definition demo_posthook_impl :: "json method_impl" where
  "demo_posthook_impl = demo_impl\<lparr>call_post_hooks := Some (\<lambda>s out. (s, Some (ApiExc 409 (JStr ''conflict''))))\<rparr>"

definition demo_view :: "json json_view" where
  "demo_view =
     \<lparr>get_method = Some demo_impl, post_method = Some demo_impl, put_method = None,
      delete_method = None, location_url_name = None, view_name = ''ItemView''\<rparr>"

definition demo_post :: request where
  "demo_post = demo_get\<lparr>req_method := POST, req_GET := [], req_json := Some (JObj [])\<rparr>"

definition demo_count_impl :: "json method_impl" where
  "demo_count_impl =
     demo_impl\<lparr>execute := (\<lambda>s. case m_params s of
                  Some (JObj kvs) \<Rightarrow>
                    if map_of kvs ''count'' \<noteq> None then (s\<lparr>m_total := Some 7\<rparr>, Inr [JInt 1]) else (s, Inr [])
                | _ \<Rightarrow> (s, Inr []))\<rparr>"

definition demo_count_get :: request where
  "demo_count_get = demo_get\<lparr>req_GET := [(''count'', ''1'')]\<rparr>"

definition demo_fetch :: fetcher where
  "demo_fetch u =
     (if u = ''http://users/'' then Inr \<lparr>rr_status = 200, rr_json = Some (JList [JInt 1])\<rparr>
      else if u = ''http://empty/'' then Inr \<lparr>rr_status = 200, rr_json = Some (JList [])\<rparr>
      else Inr \<lparr>rr_status = 204, rr_json = None\<rparr>)"

text \<open>An \<open>execute\<close> that reads \<open>params\<close>, suspends on I/O, and returns what it read.\<close>

definition demo_ae :: "(json, json) async_exec" where
  "demo_ae =
     \<lparr>ae_start = (\<lambda>s. (s, case m_params s of Some p \<Rightarrow> p | None \<Rightarrow> JNull)),
      ae_resume = (\<lambda>k s. (s\<lparr>m_total := Some 1\<rparr>, Inr [k]))\<rparr>"

definition demo_async_impl :: "json method_impl" where
  "demo_async_impl = demo_impl\<lparr>execute := seq_exec demo_ae\<rparr>"

lemmas demo_eval = from_http_def resolve_cursors_def resolve_cursor_def cursor_from_query_def
  get_int_or_none_def parse_decimal_def digit_value_def validate_input_def json_of_md_def
  demo_get_def demo_settings_def init_mstate_def demo_st1_def Let_def

lemmas demo_run = demo_eval json_process_def run_method_def run_pre_hooks_def get_output_def
  get_pagination_def run_post_hooks_def recheck_status_def finish_json_def demo_impl_def validate_body_def

lemma demo_from_http:
  "from_http demo_impl demo_get (init_mstate :: json mstate) = (demo_st1, Inr ())"
  by (simp add: demo_eval demo_impl_def)

section \<open>Witnesses\<close>

theorem json_process_success_witness:
  "o_result (json_process (Some demo_impl) 200 demo_get (init_mstate :: json mstate)) =
     Inr \<lparr>status = 200,
          body = JObj [(''result'', JList [JInt 1, JInt 2]), (''success'', JBool True),
                       (''pagination'', JObj [(''total'', JInt 2), (''limit'', JInt 20), (''offset'', JInt 10)])],
          headers = []\<rparr>"
proof -
  have exe: "execute demo_impl demo_st1 = (demo_st1\<lparr>m_total := Some 2\<rparr>, Inr [JInt 1, JInt 2])"
    by (simp add: demo_impl_def)
  show ?thesis
    using json_process_success [OF demo_from_http _ _ exe, of "[JInt 1, JInt 2]" 200]
    by (simp add: demo_impl_def demo_st1_def map_exc_map get_pagination_def render_envelope_def
        json_of_pagination_def json_of_pval_def Let_def)
qed

theorem json_process_bad_request_witness:
  "o_result (json_process (Some demo_strict_impl) 200 demo_get (init_mstate :: json mstate)) =
     Inr \<lparr>status = 400,
          body = JObj [(''result'', JNull), (''success'', JBool False),
                       (''errors'', JList [JObj [(''code'', JInt 400), (''message'',
                          JList [JObj [(''name'', JList [JStr ''This field is required.''])],
                                 JObj [(''age'', JList [JStr ''Value is not int.''])]])]])],
          headers = []\<rparr>"
proof -
  have "resolve_cursors demo_strict_impl demo_get = (PInt 20, PInt 10, [])"
    by (simp add: demo_eval demo_strict_impl_def demo_impl_def)
  moreover have "validate_input demo_strict_impl demo_get [] = Some (SDataErr demo_field_errors)"
    by (simp add: demo_eval demo_strict_impl_def demo_impl_def)
  ultimately show ?thesis
    using json_process_bad_request [of demo_get demo_strict_impl "PInt 20" "PInt 10" "[]"
        demo_field_errors 200 "init_mstate :: json mstate"]
    by (simp add: demo_get_def demo_field_errors_def render_envelope_def initial_response_def
        api_to_dict_def bad_request_message_def field_error_json_def)
qed

theorem json_process_not_implemented_witness:
  "o_result (json_process (Some (demo_impl\<lparr>execute := base_execute\<rparr>)) 200 demo_get (init_mstate :: json mstate)) =
     Inr \<lparr>status = 500,
          body = JObj [(''result'', JNull), (''success'', JBool False),
                       (''errors'', JList [JObj [(''code'', JInt 500), (''message'', JStr ''Server error'')]])],
          headers = []\<rparr>"
proof -
  have "from_http (demo_impl\<lparr>execute := base_execute\<rparr>) demo_get (init_mstate :: json mstate) = (demo_st1, Inr ())"
    by (simp add: demo_eval demo_impl_def)
  then show ?thesis
    using json_process_not_implemented [of "demo_impl\<lparr>execute := base_execute\<rparr>"]
    by (simp add: demo_impl_def render_envelope_def server_error_record_def)
qed

theorem json_process_missing_pre_hooks_witness:
  "o_result (json_process (Some (base_method SOk Inr)) 201 demo_get (init_mstate :: json mstate)) =
     Inr \<lparr>status = 500,
          body = JObj [(''result'', JNull), (''success'', JBool False),
                       (''errors'', JList [JObj [(''code'', JInt 500), (''message'', JStr ''Server error'')]])],
          headers = []\<rparr>"
proof -
  have "from_http (base_method SOk Inr) demo_get (init_mstate :: json mstate) = (demo_st1, Inr ())"
    by (simp add: demo_eval base_method_def)
  then show ?thesis
    using json_process_missing_pre_hooks [of "base_method SOk Inr"]
    by (simp add: base_method_def render_envelope_def server_error_record_def)
qed

theorem collect_errors_complete_witness:
  "collect_errors demo_field_errors = [(''name'', [''This field is required.'']), (''age'', [''Value is not int.''])] \<and>
   ((''age'', [''Value is not int.'']) \<in> set (collect_errors demo_field_errors))"
  using collect_errors_complete [of "''age''" "[''Value is not int.'']" demo_field_errors]
  by (simp add: demo_field_errors_def)

theorem json_process_total_witness:
  "keeps_first_error_ok demo_err_impl \<and>
   (\<exists>r. o_result (json_process (Some demo_err_impl) 200 demo_get (init_mstate :: json mstate)) = Inr r)"
proof -
  have k: "keeps_first_error_ok demo_err_impl"
    by (simp add: keeps_first_error_ok_def preserves_first_error_def demo_err_impl_def demo_impl_def
        api_to_dict_def error_record_ok_def obj_get_def)
  show ?thesis using k json_process_total [OF k] by simp
qed

theorem from_http_cursors_witness:
  "m_limit (fst (from_http demo_impl demo_get (init_mstate :: json mstate))) = Some (PInt 20) \<and>
   m_offset (fst (from_http demo_impl demo_get (init_mstate :: json mstate))) = Some (PInt 10)"
  using from_http_cursors [of demo_get demo_impl "init_mstate :: json mstate"]
  by (simp add: demo_get_def demo_settings_def demo_impl_def cursor_value_def cursor_from_query_value
      get_int_or_none_def parse_decimal_def digit_value_def)

theorem resolve_cursors_headers_keep_query_witness:
  "resolve_cursors demo_impl demo_hdr_get = (PStr ''5'', PStr ''7'', [(''limit'', ''50''), (''offset'', ''70'')])"
  using resolve_cursors_headers_keep_query [of demo_hdr_get "''5''" "''7''" demo_impl]
  by (simp add: demo_hdr_get_def demo_get_def demo_impl_def)

theorem from_http_zero_offset_witness:
  "m_offset (fst (from_http demo_impl demo_zero_get (init_mstate :: json mstate))) = Some (PInt 5)"
  using from_http_zero_offset [of demo_zero_get demo_impl "init_mstate :: json mstate"]
  by (simp add: demo_zero_get_def demo_get_def demo_impl_def)

theorem from_http_form_fallback_witness:
  "snd (from_http demo_impl demo_form_post (init_mstate :: json mstate)) = Inr () \<and>
   m_params (fst (from_http demo_impl demo_form_post (init_mstate :: json mstate))) = Some (JObj [(''name'', JStr ''x'')])"
  using from_http_form_fallback [of demo_form_post demo_impl "JObj [(''name'', JStr ''x'')]"]
  by (simp add: demo_form_post_def demo_get_def demo_impl_def json_of_md_def)

theorem get_output_pagination_witness:
  "env_pagination (projr (snd (get_output demo_impl demo_st1))) =
     Some \<lparr>pg_total = 2, pg_limit = Some (PInt 20), pg_offset = Some (PInt 10)\<rparr>"
proof -
  have g: "get_output demo_impl demo_st1 =
     (fst (get_output demo_impl demo_st1), Inr (projr (snd (get_output demo_impl demo_st1))))"
    by (simp add: get_output_def demo_impl_def get_pagination_def Let_def)
  show ?thesis
    using get_output_pagination [OF g]
    by (simp add: get_output_def demo_impl_def demo_st1_def get_pagination_def Let_def)
qed
lemma demo_err_from_http:
  "from_http demo_err_impl demo_get (init_mstate :: json mstate) = (demo_st1, Inr ())"
  by (simp add: demo_eval demo_err_impl_def demo_impl_def)

theorem json_process_execute_errors_witness:
  "o_result (json_process (Some demo_err_impl) 200 demo_get (init_mstate :: json mstate)) =
     Inr \<lparr>status = 404,
          body = JObj [(''result'', JList []), (''success'', JBool False),
                       (''errors'', JList [JObj [(''code'', JInt 404), (''message'', JStr ''missing'')]])],
          headers = []\<rparr>"
proof -
  have exe: "execute demo_err_impl demo_st1 =
      (demo_st1\<lparr>m_errors := [api_to_dict 404 (JStr ''missing'')]\<rparr>, Inr [])"
    by (simp add: demo_err_impl_def demo_st1_def)
  show ?thesis
    using json_process_execute_errors [OF demo_err_from_http _ _ exe, of
        "[(''code'', JInt 404), (''message'', JStr ''missing'')]" "[]" 404 "[]" 200]
    by (simp add: demo_err_impl_def demo_impl_def api_to_dict_def demo_st1_def get_pagination_def
        render_envelope_def)
qed

theorem json_process_string_error_crash_witness:
  "o_result (json_process (Some demo_str_impl) 200 demo_get (init_mstate :: json mstate)) =
     Inl (attribute_error ''get'')"
proof -
  have h: "from_http demo_str_impl demo_get (init_mstate :: json mstate) = (demo_st1, Inr ())"
    by (simp add: demo_eval demo_str_impl_def demo_impl_def)
  have exe: "execute demo_str_impl demo_st1 = (demo_st1\<lparr>m_errors := [JStr ''stale cache'']\<rparr>, Inr [])"
    by (simp add: demo_str_impl_def demo_st1_def)
  show ?thesis
    using json_process_string_error_crash [OF h _ _ exe, of "''stale cache''" "[]" "[]" 200]
    by (simp add: demo_str_impl_def demo_impl_def)
qed

theorem handle_exc_message_errors_witness:
  "resolve_errors
     (m_errors (fst (handle_exc 200 (demo_st1\<lparr>m_errors := [JStr ''e0'']\<rparr>) initial_response
        (Some (PyExc None (Some (JStr ''db password rejected'')) ''boom'')))))
     (env_errors (fst (snd (handle_exc 200 (demo_st1\<lparr>m_errors := [JStr ''e0'']\<rparr>) initial_response
        (Some (PyExc None (Some (JStr ''db password rejected'')) ''boom''))))))
   = Some [JStr ''e0'', server_error_record 500, JStr ''db password rejected'']"
proof -
  obtain st' resp' c lg where H: "handle_exc 200 (demo_st1\<lparr>m_errors := [JStr ''e0'']\<rparr>) initial_response
        (Some (PyExc None (Some (JStr ''db password rejected'')) ''boom'')) = (st', resp', c, lg)"
    by (metis prod_cases4)
  show ?thesis
    using handle_exc_message_errors [OF H] unfolding H by simp
qed

theorem json_process_post_hook_fault_witness:
  "o_result (json_process (Some demo_posthook_impl) 200 demo_get (init_mstate :: json mstate)) =
     Inr \<lparr>status = 409,
          body = JObj [(''result'', JList [JInt 1, JInt 2]), (''success'', JBool True),
                       (''errors'', JList [JObj [(''code'', JInt 409), (''message'', JStr ''conflict'')]]),
                       (''pagination'', JObj [(''total'', JInt 2), (''limit'', JInt 20), (''offset'', JInt 10)])],
          headers = []\<rparr>"
proof -
  have h: "from_http demo_posthook_impl demo_get (init_mstate :: json mstate) = (demo_st1, Inr ())"
    by (simp add: demo_eval demo_posthook_impl_def demo_impl_def)
  have exe: "execute demo_posthook_impl demo_st1 = (demo_st1\<lparr>m_total := Some 2\<rparr>, Inr [JInt 1, JInt 2])"
    by (simp add: demo_posthook_impl_def demo_impl_def)
  show ?thesis
    using json_process_post_hook_fault [OF h _ _ exe, of 409 "JStr ''conflict''" "[JInt 1, JInt 2]" 200]
    by (simp add: demo_posthook_impl_def demo_impl_def demo_st1_def map_exc_map get_pagination_def
        render_envelope_def api_to_dict_def json_of_pagination_def json_of_pval_def Let_def)
qed

theorem json_view_unmapped_verb_witness:
  "o_state (json_view_handle demo_view (demo_get\<lparr>req_method := DELETE\<rparr>) (init_mstate :: json mstate)) = init_mstate \<and>
   o_result (json_view_handle demo_view (demo_get\<lparr>req_method := DELETE\<rparr>) (init_mstate :: json mstate)) =
     Inl bare_method_not_allowed"
  using json_view_unmapped_verb [of demo_view "demo_get\<lparr>req_method := DELETE\<rparr>" "init_mstate :: json mstate"]
  by (simp add: demo_view_def)

theorem json_view_location_witness:
  "headers (projr (o_result (json_view_handle demo_view demo_post (init_mstate :: json mstate)))) =
     [(''Location'', ''/items/1'')]"
proof -
  let ?oc = "json_process (Some demo_impl) 201 demo_post (init_mstate :: json mstate)"
  have r: "o_result ?oc = Inr (projr (o_result ?oc))"
    by (simp add: demo_run demo_post_def)
  have s: "o_saved ?oc = Some [JInt 1, JInt 2]"
    by (simp add: demo_run demo_post_def)
  have hd: "headers (projr (o_result ?oc)) = []"
    by (simp add: demo_run demo_post_def)
  have u: "reverse_url ''ItemView'' demo_post None (JInt 1) = Inr ''/items/1''"
    by (simp add: reverse_url_def demo_post_def demo_get_def demo_router_def show_int_def show_decimal.simps char_of_eq_iff)
  show ?thesis
    using json_view_location [of demo_post demo_view demo_impl "init_mstate :: json mstate"
        "projr (o_result ?oc)" "''/items/1''"] r s hd u
    by (simp add: demo_view_def demo_post_def demo_get_def)
qed
theorem mobile_view_status_witness:
  "\<exists>r. o_result (mobile_view_handle demo_view demo_post (init_mstate :: json mstate)) = Inr r \<and>
       status r = 201 \<and> headers r = []"
  using mobile_view_status [of demo_view demo_post demo_impl "init_mstate :: json mstate"]
  by (simp add: demo_view_def demo_post_def demo_get_def)

theorem mobile_process_drops_errors_witness:
  "o_result (mobile_process (Some demo_err_impl) 200 demo_get (init_mstate :: json mstate)) =
     Inr \<lparr>status = 200,
          body = JObj [(''code'', JInt 0), (''data'', JObj [(''result'', JList []), (''pagination'', JNull)])],
          headers = []\<rparr>"
proof -
  have exe: "execute demo_err_impl demo_st1 =
      (demo_st1\<lparr>m_errors := [api_to_dict 404 (JStr ''missing'')]\<rparr>, Inr [])"
    by (simp add: demo_err_impl_def demo_st1_def)
  show ?thesis
    using mobile_process_drops_errors [OF demo_err_from_http _ _ exe, of "[]" 200]
    by (simp add: demo_err_impl_def demo_impl_def demo_st1_def get_pagination_def render_mobile_def)
qed

theorem mobile_process_api_fault_witness:
  "o_result (mobile_process (Some demo_strict_impl) 200 demo_get (init_mstate :: json mstate)) =
     Inr \<lparr>status = 200,
          body = JObj [(''code'', JInt 400), (''data'', JObj []),
                       (''error'', JList [JObj [(''name'', JList [JStr ''This field is required.''])],
                                          JObj [(''age'', JList [JStr ''Value is not int.''])]])],
          headers = []\<rparr>"
proof -
  have "run_method demo_strict_impl demo_get (init_mstate :: json mstate) =
      (demo_st1\<lparr>m_params := None, m_settings := None\<rparr>, None,
       Some (ApiExc 400 (bad_request_message (collect_errors demo_field_errors))))"
    by (simp add: run_method_def demo_eval demo_strict_impl_def demo_impl_def bad_request_exc_def)
  then show ?thesis
    using mobile_process_api_fault [of demo_strict_impl demo_get "init_mstate :: json mstate"]
    by (simp add: demo_st1_def render_mobile_def demo_field_errors_def bad_request_message_def
        field_error_json_def)
qed
theorem json_process_stale_total_witness:
  "o_result (json_process (Some demo_count_impl) 200 demo_get
      (o_state (json_process (Some demo_count_impl) 200 demo_count_get (init_mstate :: json mstate)))) =
     Inr \<lparr>status = 200,
          body = JObj [(''result'', JList []), (''success'', JBool True),
                       (''pagination'', JObj [(''total'', JInt 7), (''limit'', JInt 20), (''offset'', JInt 10)])],
          headers = []\<rparr>"
proof -
  let ?st = "o_state (json_process (Some demo_count_impl) 200 demo_count_get (init_mstate :: json mstate))"
  have st: "?st = demo_st1\<lparr>m_result := Some [JInt 1], m_total := Some 7, m_params := Some (JObj [(''count'', JStr ''1'')]),
      m_offset := Some (PInt 0),
      m_pagination := Some \<lparr>pg_total = 7, pg_limit = Some (PInt 20), pg_offset = Some (PInt 0)\<rparr>,
      m_output := Some \<lparr>env_result = Some [JInt 1], env_success = True, env_errors = NoErrs,
        env_pagination = Some \<lparr>pg_total = 7, pg_limit = Some (PInt 20), pg_offset = Some (PInt 0)\<rparr>\<rparr>\<rparr>"
    by (simp add: demo_run demo_count_impl_def demo_count_get_def)
  let ?st1 = "?st\<lparr>m_result := Some [], m_params := Some (JObj []), m_offset := Some (PInt 10)\<rparr>"
  have h: "from_http demo_count_impl demo_get ?st = (?st1, Inr ())"
    unfolding st by (simp add: demo_eval demo_count_impl_def demo_impl_def)
  have exe: "execute demo_count_impl ?st1 = (?st1, Inr [])"
    by (simp add: demo_count_impl_def)
  show ?thesis
    using json_process_stale_total [OF h _ _ exe, of "[]" 7 200] unfolding st
    by (simp add: demo_count_impl_def demo_impl_def demo_st1_def render_envelope_def
        json_of_pagination_def json_of_pval_def)
qed

theorem djaio_run_runserver_witness: "djaio_run (djaio_init [''djaio'', ''runserver'', ''localhost:''] () None) = [CRunApp ''localhost'' ''8080'']"
  using djaio_run_runserver [of "''localhost''" "''''" "''djaio''" "[]" "()" None] by simp

theorem djaio_run_runserver_default_witness: "djaio_run (djaio_init [''djaio'', ''runserver'', ''a:b:c''] () None) = [CPrint host_warning, CRunApp ''0.0.0.0'' ''8080'']"
  using djaio_run_runserver_default [of "[''a:b:c'']" "''djaio''" "()" None] by simp

theorem djaio_run_help_witness: "djaio_run (djaio_init [''/usr/bin/manage''] () None) = map CPrint [replicate 60 CHR ''='', ''Usage:  <command> <options>'', ''Available commands:'',
                       '' * help - shows this message'', '' * runserver host:port - runs web server'',
                       replicate 60 CHR ''='']"
  using djaio_run_help [of "[''/usr/bin/manage'']" "()" None] by simp

theorem djaio_run_unknown_witness: "djaio_run (djaio_init [''djaio'', ''migrate''] () None) = []"
  using djaio_run_unknown [of "''migrate''" "''djaio''" "[]" "()" None] by simp


theorem remote_context_ok_witness:
  "\<exists>ctx. remote_context demo_fetch [(''users'', ''http://users/''), (''extra'', ''http://empty/'')] = Inr ctx \<and>
     distinct (map fst ctx) \<and> map_of ctx = map_of [(''extra'', JStr []), (''users'', JList [JInt 1])]"
  using remote_context_ok [of "[(''users'', ''http://users/''), (''extra'', ''http://empty/'')]" demo_fetch
      "\<lambda>u. if u = ''http://users/'' then JList [JInt 1] else JList []"]
  by (simp add: demo_fetch_def)

theorem remote_context_bad_gateway_witness:
  "remote_context demo_fetch [(''users'', ''http://users/''), (''audit'', ''http://audit/'')] = Inl http_bad_gateway"
  using remote_context_bad_gateway [of "[(''users'', ''http://users/''), (''audit'', ''http://audit/'')]" demo_fetch
      "''audit''" "''http://audit/''" "\<lparr>rr_status = 204, rr_json = None\<rparr>"]
  by (simp add: demo_fetch_def)

theorem get_remote_data_falsy_witness:
  "get_remote_data demo_fetch ''http://empty/'' = Inr (JStr [])"
  using get_remote_data_falsy [of demo_fetch "''http://empty/''" "JList []"]
  by (simp add: demo_fetch_def)

lemma demo_async_from_http:
  "from_http demo_async_impl demo_get (init_mstate :: json mstate) = (demo_st1, Inr ())"
  by (simp add: demo_eval demo_async_impl_def demo_impl_def)

lemma demo_ae_start: "ae_start demo_ae demo_st1 = (demo_st1, JObj [])"
  by (simp add: demo_ae_def demo_st1_def)

lemma demo_hdr_from_http:
  "from_http demo_async_impl demo_hdr_get demo_st1 = (fst (from_http demo_async_impl demo_hdr_get demo_st1), Inr ())"
  by (simp add: demo_eval demo_async_impl_def demo_impl_def demo_hdr_get_def)

theorem sys_step_cursor_leak_witness:
  "\<exists>c'. (sys_step demo_async_impl demo_ae 200 [demo_get, demo_hdr_get])\<^sup>*\<^sup>*
          \<lparr>shared = init_mstate, tasks = [Ready, Ready]\<rparr> c' \<and>
        tasks c' ! 0 =
          Done (Inr \<lparr>status = 200,
                     body = JObj [(''result'', JList [JObj []]), (''success'', JBool True),
                                  (''pagination'', JObj [(''total'', JInt 1), (''limit'', JStr ''5''),
                                                         (''offset'', JStr ''7'')])],
                     headers = []\<rparr>) []"
proof -
  note a1 = demo_async_from_http and a2 = demo_ae_start
  let ?s2 = "fst (from_http demo_async_impl demo_hdr_get demo_st1)"
  note b1 = demo_hdr_from_http
  have b2: "ae_start demo_ae ?s2 = (?s2, case m_params ?s2 of Some p \<Rightarrow> p | None \<Rightarrow> JNull)"
    by (simp add: demo_ae_def)
  have a3: "ae_resume demo_ae (JObj []) ?s2 = (?s2\<lparr>m_total := Some 1\<rparr>, Inr [JObj []])"
    by (simp add: demo_ae_def)
  have rc: "resolve_cursors demo_async_impl demo_hdr_get = (PStr ''5'', PStr ''7'', [(''limit'', ''50''), (''offset'', ''70'')])"
    by (simp add: demo_eval demo_async_impl_def demo_impl_def demo_hdr_get_def)
  show ?thesis
    using sys_step_cursor_leak [OF _ _ a1 a2 b1 b2 a3, where dflt = 200 and prims = "[JObj []]"] rc
    by (simp add: demo_async_impl_def demo_impl_def demo_hdr_get_def demo_get_def render_envelope_def
        json_of_pagination_def json_of_pval_def)
qed

theorem json_view_location_error_witness:
  "o_result (json_view_handle demo_view (demo_post\<lparr>app_urls := []\<rparr>) (init_mstate :: json mstate)) =
     Inl (key_error ''ItemView'')"
proof -
  let ?P = "demo_post\<lparr>app_urls := []\<rparr>"
  have saved: "o_saved (json_process (Some demo_impl) 201 ?P (init_mstate :: json mstate)) = Some [JInt 1, JInt 2]"
    by (simp add: demo_run demo_post_def demo_get_def map_exc_map)
  have "\<exists>r. o_result (json_process (Some demo_impl) 201 ?P (init_mstate :: json mstate)) = Inr r"
    by (simp add: demo_run demo_post_def demo_get_def map_exc_map)
  then obtain r where res: "o_result (json_process (Some demo_impl) 201 ?P (init_mstate :: json mstate)) = Inr r"
    by blast
  have url: "reverse_url (view_name demo_view) ?P (location_url_name demo_view) (JInt 1) = Inl (key_error ''ItemView'')"
    by (simp add: reverse_url_def demo_view_def)
  show ?thesis
    using json_view_location_error [OF _ _ res saved url] by (simp add: demo_post_def demo_get_def demo_view_def)
qed

theorem sys_step_cursors_untorn_witness:
  "keeps_cursors demo_async_impl demo_ae \<and>
   (sys_step demo_async_impl demo_ae 200 [demo_get, demo_hdr_get])\<^sup>*\<^sup>*
     \<lparr>shared = init_mstate, tasks = [Ready, Ready]\<rparr>
     \<lparr>shared = fst (from_http demo_async_impl demo_hdr_get demo_st1),
      tasks = [Waiting (JObj []), Waiting (snd (ae_start demo_ae (fst (from_http demo_async_impl demo_hdr_get demo_st1))))]\<rparr> \<and>
   (cursor_pair (fst (from_http demo_async_impl demo_hdr_get demo_st1)) = cursor_pair (init_mstate :: json mstate) \<or>
    (\<exists>i < 2. [Waiting (JObj []), Waiting (snd (ae_start demo_ae (fst (from_http demo_async_impl demo_hdr_get demo_st1))))] ! i \<noteq> Ready \<and>
       is_web_request ([demo_get, demo_hdr_get] ! i) \<and>
       cursor_pair (fst (from_http demo_async_impl demo_hdr_get demo_st1)) =
         cursors_of demo_async_impl ([demo_get, demo_hdr_get] ! i)))"
proof -
  let ?R = "sys_step demo_async_impl demo_ae 200 [demo_get, demo_hdr_get]"
  let ?s2 = "fst (from_http demo_async_impl demo_hdr_get demo_st1)"
  let ?kB = "snd (ae_start demo_ae ?s2)"
  have keep: "keeps_cursors demo_async_impl demo_ae"
    by (simp add: keeps_cursors_def demo_ae_def demo_async_impl_def demo_impl_def cursor_pair_def)
  have pre: "call_pre_hooks demo_async_impl = Some (\<lambda>s. (s, None))"
    by (simp add: demo_async_impl_def demo_impl_def)
  have s1: "?R \<lparr>shared = init_mstate, tasks = [Ready, Ready]\<rparr> \<lparr>shared = demo_st1, tasks = [Waiting (JObj []), Ready]\<rparr>"
    using sys_step.start [where impl = demo_async_impl and ae = demo_ae and dflt = 200
        and reqs = "[demo_get, demo_hdr_get]" and i = 0 and c = "\<lparr>shared = init_mstate, tasks = [Ready, Ready]\<rparr>"]
      task_start_waiting [OF demo_async_from_http pre demo_ae_start, of 200]
    by simp
  have bs: "ae_start demo_ae ?s2 = (?s2, ?kB)" by (simp add: demo_ae_def)
  have s2: "?R \<lparr>shared = demo_st1, tasks = [Waiting (JObj []), Ready]\<rparr>
              \<lparr>shared = ?s2, tasks = [Waiting (JObj []), Waiting ?kB]\<rparr>"
    using sys_step.start [where impl = demo_async_impl and ae = demo_ae and dflt = 200
        and reqs = "[demo_get, demo_hdr_get]" and i = 1 and c = "\<lparr>shared = demo_st1, tasks = [Waiting (JObj []), Ready]\<rparr>"]
      task_start_waiting [OF demo_hdr_from_http pre bs, of 200]
    by simp
  have r: "?R\<^sup>*\<^sup>* \<lparr>shared = init_mstate, tasks = replicate 2 Ready\<rparr> \<lparr>shared = ?s2, tasks = [Waiting (JObj []), Waiting ?kB]\<rparr>"
    using s1 s2 by (simp add: numeral_2_eq_2)
  have "cursor_pair ?s2 = cursor_pair (init_mstate :: json mstate) \<or>
    (\<exists>i < length [Waiting (JObj []), Waiting ?kB]. [Waiting (JObj []), Waiting ?kB] ! i \<noteq> Ready \<and>
       is_web_request ([demo_get, demo_hdr_get] ! i) \<and> cursor_pair ?s2 = cursors_of demo_async_impl ([demo_get, demo_hdr_get] ! i))"
    using sys_step_cursors_untorn [OF keep r] by simp
  then show ?thesis using keep r by (auto simp: numeral_2_eq_2 less_Suc_eq)
qed

end
